theory Spec2Isabelle
  imports Complex_Main "HOL-Library.Sublist"
begin

section \<open>Strings and JavaScript truthiness\<close>

text \<open>
  Strings are byte lists. \<open>toLowerCase\<close>, \<open>toUpperCase\<close> and \<open>trim\<close> are the JavaScript
  methods of the same name on ASCII text, which is what contract addresses are; on a
  string with code points beyond ASCII (a no-break space, an accented letter) the
  JavaScript methods do more than these, and such strings are outside what the model
  says about them.
\<close>

definition toLowerChar :: "char \<Rightarrow> char" where
  "toLowerChar c =
     (let n = (of_char c :: nat) in if 65 \<le> n \<and> n \<le> 90 then char_of (n + 32) else c)"

definition toUpperChar :: "char \<Rightarrow> char" where
  "toUpperChar c =
     (let n = (of_char c :: nat) in if 97 \<le> n \<and> n \<le> 122 then char_of (n - 32) else c)"

definition toLowerCase :: "string \<Rightarrow> string" where
  "toLowerCase s = map toLowerChar s"

definition toUpperCase :: "string \<Rightarrow> string" where
  "toUpperCase s = map toUpperChar s"

definition isSpace :: "char \<Rightarrow> bool" where
  "isSpace c = ((of_char c :: nat) \<in> {9, 10, 11, 12, 13, 32})"

definition trim :: "string \<Rightarrow> string" where
  "trim s = rev (dropWhile isSpace (rev (dropWhile isSpace s)))"

text \<open>
  An optional string property of an untyped candidate object is a \<open>string option\<close>:
  \<open>None\<close> is \<open>undefined\<close>. A value is truthy when it is present and not empty;
  \<open>a || b\<close> is \<open>orElse a b\<close>.
\<close>

definition truthy :: "string option \<Rightarrow> bool" where
  "truthy v = (case v of None \<Rightarrow> False | Some s \<Rightarrow> s \<noteq> [])"

definition orElse :: "string option \<Rightarrow> string \<Rightarrow> string" where
  "orElse v d = (case v of None \<Rightarrow> d | Some s \<Rightarrow> if s = [] then d else s)"

text \<open>\<open>[...new Set(xs)]\<close>: duplicates removed, the first occurrence kept.\<close>

fun uniq :: "'a list \<Rightarrow> 'a list" where
  "uniq [] = []"
| "uniq (x # xs) = x # uniq (filter (\<lambda>y. y \<noteq> x) xs)"

section \<open>Dates\<close>

type_synonym date = int \<comment> \<open>milliseconds since the epoch, \<open>Date.getTime()\<close>\<close>

text \<open>
  The calendar arithmetic of \<open>Date\<close>, on a clock in UTC (in a zone with daylight saving
  the local methods can differ from these by the hour that is shifted). \<open>civil\<close> turns a
  day number into year, month (1 to 12) and day of the month; \<open>dayNumber\<close> is its
  inverse and, as \<open>MakeDay\<close> does, takes a day of the month beyond the end of the month
  into the next one.
\<close>

definition civil :: "int \<Rightarrow> int \<times> int \<times> int" where
  "civil z0 =
     (let z = z0 + 719468;
          era = z div 146097;
          doe = z - era * 146097;
          yoe = (doe - doe div 1460 + doe div 36524 - doe div 146096) div 365;
          doy = doe - (365 * yoe + yoe div 4 - yoe div 100);
          mp = (5 * doy + 2) div 153;
          d = doy - (153 * mp + 2) div 5 + 1;
          m = (if mp < 10 then mp + 3 else mp - 9);
          y = yoe + era * 400 + (if m \<le> 2 then 1 else 0)
      in (y, m, d))"

definition dayNumber :: "int \<Rightarrow> int \<Rightarrow> int \<Rightarrow> int" where
  "dayNumber y0 m d =
     (let y = y0 - (if m \<le> 2 then 1 else 0);
          era = y div 400;
          yoe = y - era * 400;
          doy = (153 * (if m > 2 then m - 3 else m + 9) + 2) div 5 + d - 1;
          doe = yoe * 365 + yoe div 4 - yoe div 100 + doy
      in era * 146097 + doe - 719468)"

text \<open>\<open>t.setDate(t.getDate() - n)\<close> and \<open>t.setMonth(t.getMonth() - n)\<close>.\<close>

definition daysBefore :: "nat \<Rightarrow> date \<Rightarrow> date" where
  "daysBefore n t = t - int n * 86400000"

definition monthsBefore :: "nat \<Rightarrow> date \<Rightarrow> date" where
  "monthsBefore n t =
     (case civil (t div 86400000) of
        (y, m, d) \<Rightarrow>
          (let mi = m - 1 - int n
           in (dayNumber (y + mi div 12) (mi mod 12 + 1) 1 + d - 1) * 86400000
              + t mod 86400000))"

section \<open>The verified-airdrop document (VerifiedAirdropSchema)\<close>

datatype status = Upcoming | Active | Ended | Paused | Cancelled

datatype verification_level = Unverified | Community | Official | Scam

datatype risk_level = Low | Medium | High | Critical

datatype source_type = Api | Scraping | Monitoring | Manual

datatype dist_method = ClaimMethod | AirdropMethod | Vesting | Lottery

datatype added_by = BySystem | ByCommunity | ByAdmin

record source_entry =
  stype :: source_type
  url :: string
  lastUpdated :: date
  confidence :: nat

record history_entry =
  hdate :: date
  action :: string
  actor :: string \<comment> \<open>the field \<open>by\<close>\<close>
  details :: "string option"

record requirements_info =
  minBalance :: "string option"
  snapshotDate :: "date option"
  holdingPeriod :: "rat option"
  interactions :: "string list"
  whitelistOnly :: bool
  kyc :: bool

record contract_info =
  verified :: bool
  hasClaimFunction :: bool
  owner :: "string option"
  deployer :: "string option"
  creationDate :: "date option"
  lastActivity :: "date option"
  auditReports :: "string list"

record vesting_schedule =
  periods :: "rat option"
  periodDuration :: "rat option"
  initialRelease :: "rat option"

record distribution_info =
  distMethod :: dist_method \<comment> \<open>\<open>distribution.method\<close>\<close>
  claimContract :: "string option"
  vestingSchedule :: vesting_schedule

record social_metrics =
  twitterFollowers :: rat
  discordMembers :: rat
  telegramMembers :: rat
  lastSocialUpdate :: "date option"

record risks_info =
  level :: risk_level
  factors :: "string list"
  warnings :: "string list"

record metadata_info =
  addedBy :: added_by
  addedAt :: date
  lastVerified :: date
  verificationHistory :: "history_entry list"

record top_claimer =
  claimer :: string \<comment> \<open>the field \<open>address\<close>\<close>
  amount :: string
  claimDate :: date \<comment> \<open>the field \<open>date\<close>\<close>

record analytics_info =
  views :: nat
  claims :: nat
  successfulClaims :: nat
  totalValueClaimed :: "string option"
  averageClaimValue :: "string option"
  topClaimers :: "top_claimer list"

text \<open>
  A document of the collection: every path that the schema declares, the two timestamps
  that its option \<open>timestamps: true\<close> adds, and the version key \<open>__v\<close> of the store
  library. A document is identified by its place in the collection; \<open>_id\<close> is not
  modelled. The timestamps are absent from a document that was never saved.
\<close>

record VerifiedAirdrop =
  name :: string
  symbol :: string
  contractAddress :: string
  tokenAddress :: string
  blockchain :: string
  description :: string
  website :: "string option"
  twitter :: "string option"
  discord :: "string option"
  telegram :: "string option"
  startDate :: "date option"
  endDate :: "date option"
  claimDeadline :: "date option"
  totalValue :: "string option"
  totalTokens :: "string option"
  eligibleUsers :: rat
  claimedUsers :: rat
  requirements :: requirements_info
  status :: status
  verificationLevel :: verification_level
  sources :: "source_entry list"
  contractInfo :: contract_info
  distribution :: distribution_info
  socialMetrics :: social_metrics
  risks :: risks_info
  tags :: "string list"
  metadata :: metadata_info
  analytics :: analytics_info
  createdAt :: "date option"
  updatedAt :: "date option"
  version :: nat \<comment> \<open>the version key \<open>__v\<close>\<close>

text \<open>
  What the model takes from outside the repository: \<open>new Date(text)\<close> (\<open>None\<close> is an
  invalid date), \<open>parseFloat\<close> (\<open>None\<close> is NaN), and two decisions of the store library
  on the save of a document that was loaded as the first argument and is saved as the
  second: whether the validation passes (the library chooses the paths it validates
  again), and whether the write increments the version key.
\<close>

record env =
  parseDate :: "string \<Rightarrow> date option"
  parseFloat :: "string \<Rightarrow> rat option"
  validatesLoaded :: "VerifiedAirdrop \<Rightarrow> VerifiedAirdrop \<Rightarrow> bool"
  bumpsVersion :: "VerifiedAirdrop \<Rightarrow> VerifiedAirdrop \<Rightarrow> bool"

datatype error = SyncInProgress | ValidationError | DuplicateKey | Failure string

fun statusName :: "status \<Rightarrow> string" where
  "statusName Upcoming = ''upcoming''"
| "statusName Active = ''active''"
| "statusName Ended = ''ended''"
| "statusName Paused = ''paused''"
| "statusName Cancelled = ''cancelled''"

fun levelName :: "verification_level \<Rightarrow> string" where
  "levelName Unverified = ''unverified''"
| "levelName Community = ''community''"
| "levelName Official = ''official''"
| "levelName Scam = ''scam''"

fun methodName :: "dist_method \<Rightarrow> string" where
  "methodName ClaimMethod = ''claim''"
| "methodName AirdropMethod = ''airdrop''"
| "methodName Vesting = ''vesting''"
| "methodName Lottery = ''lottery''"

subsection \<open>The validators of the schema\<close>

text \<open>
  \<open>save\<close> validates the document first; \<open>validates\<close> is the validation of a new
  document, which covers every path. The paths marked \<open>required\<close> must be present, and
  a required string must not be empty; \<open>blockchain\<close> must be one of the networks of its
  \<open>enum\<close>; the confidence of a source is at most 100. The other \<open>enum\<close> paths are
  datatypes here and hold no other value.
\<close>

definition blockchains :: "string list" where
  "blockchains =
     [''ethereum'', ''polygon'', ''bsc'', ''arbitrum'', ''optimism'', ''avalanche'', ''fantom'',
      ''solana'']"

definition validates :: "VerifiedAirdrop \<Rightarrow> bool" where
  "validates d =
     (name d \<noteq> [] \<and> symbol d \<noteq> [] \<and> contractAddress d \<noteq> [] \<and> tokenAddress d \<noteq> []
      \<and> blockchain d \<in> set blockchains \<and> description d \<noteq> []
      \<and> (\<forall>s \<in> set (sources d). url s \<noteq> [] \<and> confidence s \<le> 100)
      \<and> (\<forall>h \<in> set (verificationHistory (metadata d)). action h \<noteq> [] \<and> actor h \<noteq> []))"

subsection \<open>generateAutoTags\<close>

definition valueTags :: "env \<Rightarrow> string option \<Rightarrow> string list" where
  "valueTags e tv =
     (case tv of
        None \<Rightarrow> []
      | Some s \<Rightarrow>
          if s = [] then []
          else (case parseFloat e (filter (\<lambda>c. c \<noteq> CHR '','' \<and> c \<noteq> CHR ''$'') s) of
                  None \<Rightarrow> [''low-value'']
                | Some v \<Rightarrow>
                    if v > 1000000 then [''high-value'']
                    else if v > 100000 then [''medium-value'']
                    else [''low-value'']))"

definition generateAutoTags :: "env \<Rightarrow> VerifiedAirdrop \<Rightarrow> string list" where
  "generateAutoTags e d =
     uniq ([blockchain d, methodName (distMethod (distribution d))]
           @ (if verificationLevel d = Official then [''verified''] else [])
           @ (if verified (contractInfo d) then [''contract-verified''] else [])
           @ (if kyc (requirements d) then [''kyc-required''] else [])
           @ (if whitelistOnly (requirements d) then [''whitelist-only''] else [])
           @ valueTags e (totalValue d)
           @ [statusName (status d)])"

subsection \<open>The pre-save middleware\<close>

text \<open>
  \<open>preSave e now levelModified anyModified d\<close> is the middleware run by \<open>save\<close> on the
  document \<open>d\<close>; \<open>levelModified\<close> is \<open>this.isModified('verificationLevel')\<close> and
  \<open>anyModified\<close> is \<open>this.isModified()\<close> at entry. The history entry it pushes makes the
  document modified, so \<open>lastVerified\<close> is refreshed then too.
\<close>

definition pushHistory :: "history_entry \<Rightarrow> VerifiedAirdrop \<Rightarrow> VerifiedAirdrop" where
  "pushHistory h d =
     d\<lparr>metadata := (metadata d)\<lparr>verificationHistory :=
          verificationHistory (metadata d) @ [h]\<rparr>\<rparr>"

definition setLastVerified :: "date \<Rightarrow> VerifiedAirdrop \<Rightarrow> VerifiedAirdrop" where
  "setLastVerified now d = d\<lparr>metadata := (metadata d)\<lparr>lastVerified := now\<rparr>\<rparr>"

definition preSave :: "env \<Rightarrow> date \<Rightarrow> bool \<Rightarrow> bool \<Rightarrow> VerifiedAirdrop \<Rightarrow> VerifiedAirdrop" where
  "preSave e now levelModified anyModified d =
     (let d1 = (if levelModified
                then pushHistory
                       \<lparr>hdate = now,
                        action = ''Verification level changed to '' @ levelName (verificationLevel d),
                        actor = ''system'',
                        details = Some ''Previous level: true''\<rparr> d
                else d);
          d2 = (if levelModified \<or> anyModified then setLastVerified now d1 else d1)
      in if tags d2 = [] then d2\<lparr>tags := map toLowerCase (generateAutoTags e d2)\<rparr> else d2)"

text \<open>
  \<open>saveLoaded e now orig d\<close> is \<open>d.save()\<close> on a document loaded as \<open>orig\<close> and changed
  in memory to \<open>d\<close>; the result is what the store holds for that document afterwards. A
  path is modified when its value differs from the loaded one. The hooks of \<open>save\<close> run
  in this order: validation (as the store library runs it on a loaded document), the
  timestamps (\<open>updatedAt\<close> is set when the document is modified), the middleware of the
  schema; the write then increments the version key as the store library decides.
\<close>

definition stamp :: "date \<Rightarrow> VerifiedAirdrop \<Rightarrow> VerifiedAirdrop" where
  "stamp now d = d\<lparr>updatedAt := Some now\<rparr>"

definition saveLoaded :: "env \<Rightarrow> date \<Rightarrow> VerifiedAirdrop \<Rightarrow> VerifiedAirdrop \<Rightarrow> error + VerifiedAirdrop" where
  "saveLoaded e now orig d =
     (if \<not> validatesLoaded e orig d then Inl ValidationError
      else let d1 = (if d \<noteq> orig then stamp now d else d);
               d2 = preSave e now (verificationLevel d \<noteq> verificationLevel orig) (d \<noteq> orig) d1
           in Inr (if bumpsVersion e orig d2 then d2\<lparr>version := version d2 + 1\<rparr> else d2))"

subsection \<open>Document methods\<close>

definition addRiskWarningMem :: "string \<Rightarrow> string option \<Rightarrow> VerifiedAirdrop \<Rightarrow> VerifiedAirdrop" where
  "addRiskWarningMem warning factor d =
     (let ws = (if warning \<in> set (warnings (risks d)) then warnings (risks d)
                else warnings (risks d) @ [warning]);
          fs = (case factor of
                  None \<Rightarrow> factors (risks d)
                | Some f \<Rightarrow>
                    if f \<noteq> [] \<and> f \<notin> set (factors (risks d)) then factors (risks d) @ [f]
                    else factors (risks d));
          lv = (if length ws \<ge> 3 then High
                else if length ws \<ge> 2 then Medium
                else level (risks d))
      in d\<lparr>risks := \<lparr>level = lv, factors = fs, warnings = ws\<rparr>\<rparr>)"

text \<open>
  \<open>addRiskWarning\<close> changes the document in memory and returns \<open>this.save()\<close>: the
  first component is the document right after the call (the middleware has run when
  validation passed), the second the outcome of the save.
\<close>

definition addRiskWarning ::
  "env \<Rightarrow> date \<Rightarrow> string \<Rightarrow> string option \<Rightarrow> VerifiedAirdrop \<Rightarrow> VerifiedAirdrop \<times> (error + VerifiedAirdrop)" where
  "addRiskWarning e now warning factor d =
     (let m = addRiskWarningMem warning factor d
      in case saveLoaded e now d m of
           Inl err \<Rightarrow> (m, Inl err)
         | Inr s \<Rightarrow> (s, Inr s))"

definition updateVerificationLevel ::
  "env \<Rightarrow> date \<Rightarrow> verification_level \<Rightarrow> string \<Rightarrow> string option \<Rightarrow> VerifiedAirdrop
     \<Rightarrow> VerifiedAirdrop \<times> (error + VerifiedAirdrop)" where
  "updateVerificationLevel e now newLevel updatedBy dets d =
     (let oldLevel = verificationLevel d;
          m = pushHistory
                \<lparr>hdate = now,
                 action = ''Verification level changed from '' @ levelName oldLevel
                          @ '' to '' @ levelName newLevel,
                 actor = updatedBy,
                 details = dets\<rparr>
                (d\<lparr>verificationLevel := newLevel\<rparr>)
      in case saveLoaded e now d m of
           Inl err \<Rightarrow> (m, Inl err)
         | Inr s \<Rightarrow> (s, Inr s))"

section \<open>The record store\<close>

text \<open>
  The collection is the list of its documents in insertion order; \<open>findOne\<close> and
  \<open>updateOne\<close> take the first document that matches. The schema declares
  \<open>contractAddress\<close> as \<open>unique\<close>: an insert whose \<open>contractAddress\<close> is already stored
  fails with a duplicate-key error. With \<open>timestamps: true\<close> an \<open>updateOne\<close> or
  \<open>updateMany\<close> also sets \<open>updatedAt\<close> on the documents it writes; the update functions
  handed to them below include that.
\<close>

type_synonym store = "VerifiedAirdrop list"

fun findIndex :: "('a \<Rightarrow> bool) \<Rightarrow> 'a list \<Rightarrow> nat option" where
  "findIndex P [] = None"
| "findIndex P (x # xs) = (if P x then Some 0 else map_option Suc (findIndex P xs))"

definition updateOne :: "('a \<Rightarrow> bool) \<Rightarrow> ('a \<Rightarrow> 'a) \<Rightarrow> 'a list \<Rightarrow> 'a list" where
  "updateOne flt upd db =
     (case findIndex flt db of None \<Rightarrow> db | Some i \<Rightarrow> db[i := upd (db ! i)])"

definition updateMany :: "('a \<Rightarrow> bool) \<Rightarrow> ('a \<Rightarrow> 'a) \<Rightarrow> 'a list \<Rightarrow> 'a list" where
  "updateMany flt upd db = map (\<lambda>d. if flt d then upd d else d) db"

definition deleteMany :: "('a \<Rightarrow> bool) \<Rightarrow> 'a list \<Rightarrow> 'a list" where
  "deleteMany flt db = filter (\<lambda>d. \<not> flt d) db"

text \<open>
  \<open>saveNew\<close> is \<open>save()\<close> on a document built with \<open>new VerifiedAirdrop({...})\<close>:
  every path given to the constructor counts as modified, both timestamps are set and
  the version key starts at 0.
\<close>

definition saveNew :: "env \<Rightarrow> date \<Rightarrow> VerifiedAirdrop \<Rightarrow> store \<Rightarrow> error + (VerifiedAirdrop \<times> store)" where
  "saveNew e now d db =
     (if \<not> validates d then Inl ValidationError
      else let s = preSave e now True True
                     (d\<lparr>createdAt := Some now, updatedAt := Some now, version := 0\<rparr>)
           in if contractAddress s \<in> set (map contractAddress db) then Inl DuplicateKey
              else Inr (s, db @ [s]))"

section \<open>ContractVerificationService\<close>

record ContractInfo =
  p_address :: string
  p_blockchain :: string
  p_isValid :: bool
  p_isToken :: bool
  p_name :: "string option"
  p_symbol :: "string option"
  p_decimals :: "nat option"
  p_totalSupply :: "string option"
  p_isAirdropContract :: "bool option"
  p_hasClaimFunction :: "bool option"
  p_owner :: "string option"
  p_lastActivity :: "date option"
  p_verified :: bool

record token_info =
  t_name :: string
  t_symbol :: string
  t_decimals :: nat
  t_totalSupply :: string

text \<open>
  What the node, the explorer and the contract library answer during one
  \<open>verifyContract(address, blockchain)\<close> call: one field for each call that leaves the
  service, \<open>Inl\<close> when that call throws or its promise is rejected.
\<close>

record chain_reads =
  isValidAddress :: bool \<comment> \<open>\<open>ethers.isAddress(address)\<close>, false when it throws\<close>
  providerKnown :: bool \<comment> \<open>\<open>providers.get(blockchain)\<close> is defined\<close>
  explorerKey :: bool \<comment> \<open>\<open>blockchainConfigs.get(blockchain)\<close> is defined and has an \<open>apiKey\<close>\<close>
  getCode :: "error + string" \<comment> \<open>\<open>provider.getCode(address)\<close>\<close>
  sourceCode :: "error + string option"
    \<comment> \<open>the \<open>getsourcecode\<close> request: \<open>SourceCode\<close> of the first result when the status is \<open>'1'\<close>\<close>
  tokenName :: "error + string" \<comment> \<open>\<open>contract.name()\<close>\<close>
  tokenSymbol :: "error + string" \<comment> \<open>\<open>contract.symbol()\<close>\<close>
  tokenDecimals :: "error + nat" \<comment> \<open>\<open>contract.decimals()\<close>\<close>
  tokenTotalSupply :: "error + string" \<comment> \<open>\<open>contract.totalSupply()\<close>, as text\<close>
  getFunction :: "string \<Rightarrow> error + bool"
    \<comment> \<open>\<open>contract.interface.getFunction(method)\<close>: whether the answer is truthy\<close>
  ownerCall :: "error + string" \<comment> \<open>\<open>contract.owner()\<close>\<close>
  getOwnerCall :: "error + string" \<comment> \<open>\<open>contract.getOwner()\<close>\<close>
  txlist :: "error + date option"
    \<comment> \<open>the \<open>txlist\<close> request: the time of the first transaction when the status is \<open>'1'\<close>\<close>

text \<open>
  The helper methods. Each one has its own \<open>try\<close>/\<open>catch\<close> and answers a failure of
  its calls with its default: \<open>false\<close>, \<open>null\<close>, \<open>undefined\<close> or a pair of
  \<open>false\<close>.
\<close>

definition hasContractCode :: "chain_reads \<Rightarrow> bool" where
  "hasContractCode c =
     (if \<not> providerKnown c then False
      else case getCode c of Inl _ \<Rightarrow> False | Inr code \<Rightarrow> code \<noteq> ''0x'')"

text \<open>\<open>getExplorerInfo\<close>: the field \<open>verified\<close> of the object it returns, or null.\<close>

definition getExplorerInfo :: "chain_reads \<Rightarrow> bool option" where
  "getExplorerInfo c =
     (if \<not> explorerKey c then None
      else case sourceCode c of
             Inl _ \<Rightarrow> None
           | Inr None \<Rightarrow> None
           | Inr (Some src) \<Rightarrow> Some (src \<noteq> []))"

text \<open>
  \<open>getTokenInfo\<close> waits for the four calls with \<open>Promise.allSettled\<close>: the contract is
  a token when \<open>name()\<close> and \<open>symbol()\<close> both answer.
\<close>

definition getTokenInfo :: "chain_reads \<Rightarrow> token_info option" where
  "getTokenInfo c =
     (if \<not> providerKnown c then None
      else case (tokenName c, tokenSymbol c) of
             (Inr n, Inr s) \<Rightarrow>
               Some \<lparr>t_name = n, t_symbol = s,
                     t_decimals = (case tokenDecimals c of Inr k \<Rightarrow> k | Inl _ \<Rightarrow> 18),
                     t_totalSupply = (case tokenTotalSupply c of Inr v \<Rightarrow> v | Inl _ \<Rightarrow> ''0'')\<rparr>
           | _ \<Rightarrow> None)"

text \<open>
  The loops of \<open>checkAirdropFunctions\<close>: the first method for which \<open>getFunction\<close>
  answers a fragment ends the loop; a method for which it throws is skipped.
\<close>

definition anyFunction :: "chain_reads \<Rightarrow> string list \<Rightarrow> bool" where
  "anyFunction c methods = (\<exists>m \<in> set methods. getFunction c m = Inr True)"

definition checkAirdropFunctions :: "chain_reads \<Rightarrow> bool \<times> bool" where
  "checkAirdropFunctions c =
     (if \<not> providerKnown c then (False, False)
      else (anyFunction c [''isClaimed'', ''canClaim''],
            anyFunction c [''claim'', ''claimTokens'', ''claimAirdrop'']))"

definition getContractOwner :: "chain_reads \<Rightarrow> string option" where
  "getContractOwner c =
     (if \<not> providerKnown c then None
      else case ownerCall c of
             Inr a \<Rightarrow> Some a
           | Inl _ \<Rightarrow> (case getOwnerCall c of Inr a \<Rightarrow> Some a | Inl _ \<Rightarrow> None))"

definition getLastActivity :: "chain_reads \<Rightarrow> date option" where
  "getLastActivity c =
     (if \<not> explorerKey c then None
      else case txlist c of Inl _ \<Rightarrow> None | Inr t \<Rightarrow> t)"

definition baseInfo :: "string \<Rightarrow> string \<Rightarrow> ContractInfo" where
  "baseInfo a b =
     \<lparr>p_address = a, p_blockchain = b, p_isValid = False, p_isToken = False,
      p_name = None, p_symbol = None, p_decimals = None, p_totalSupply = None,
      p_isAirdropContract = None, p_hasClaimFunction = None, p_owner = None,
      p_lastActivity = None, p_verified = False\<rparr>"

text \<open>
  \<open>verifyContract\<close>. Its own \<open>catch\<close> block would answer an error of the body with a
  fresh all-false result; every step of the body is one of the helpers above, none of
  which throws, so the block has nothing to catch and the function is total as it
  stands.
\<close>

definition verifyContract :: "chain_reads \<Rightarrow> string \<Rightarrow> string \<Rightarrow> ContractInfo" where
  "verifyContract c a b =
     (if \<not> isValidAddress c then baseInfo a b
      else if \<not> hasContractCode c then baseInfo a b
      else
        (let i1 = (baseInfo a b)\<lparr>p_isValid := True\<rparr>;
             i2 = (case getExplorerInfo c of None \<Rightarrow> i1 | Some v \<Rightarrow> i1\<lparr>p_verified := v\<rparr>);
             i3 = (case getTokenInfo c of
                     None \<Rightarrow> i2
                   | Some t \<Rightarrow> i2\<lparr>p_isToken := True, p_name := Some (t_name t),
                                  p_symbol := Some (t_symbol t),
                                  p_decimals := Some (t_decimals t),
                                  p_totalSupply := Some (t_totalSupply t)\<rparr>)
         in i3\<lparr>p_isAirdropContract := Some (fst (checkAirdropFunctions c)),
                p_hasClaimFunction := Some (snd (checkAirdropFunctions c)),
                p_owner := getContractOwner c,
                p_lastActivity := getLastActivity c\<rparr>))"

text \<open>
  The reconciler reaches the service through \<open>verifyContract(address, blockchain)\<close>; a
  \<open>prober\<close> is that call, whatever the chain answers. The blockchain argument defaults to
  \<open>'ethereum'\<close> when it is \<open>undefined\<close>.
\<close>

type_synonym prober = "string \<Rightarrow> string \<Rightarrow> ContractInfo"

definition orEthereum :: "string option \<Rightarrow> string" where
  "orEthereum b = (case b of None \<Rightarrow> ''ethereum'' | Some s \<Rightarrow> s)"

definition isAirdropActive :: "prober \<Rightarrow> date \<Rightarrow> string \<Rightarrow> string \<Rightarrow> bool" where
  "isAirdropActive probe now a b =
     (let info = probe a b
      in if \<not> p_isValid info \<or> p_hasClaimFunction info \<noteq> Some True then False
         else (case p_lastActivity info of
                 Some t \<Rightarrow> t > daysBefore 30 now
               | None \<Rightarrow> True))"

section \<open>AirdropSyncService\<close>

record SyncResult =
  newAirdrops :: nat
  updatedAirdrops :: nat
  verifiedContracts :: nat
  errors :: "string list"
  lastSync :: date

text \<open>A candidate: the untyped \<open>airdropData\<close> object handed over by a source fetcher.\<close>

record candidate =
  c_name :: string
  c_symbol :: string
  c_contractAddress :: "string option"
  c_tokenAddress :: "string option"
  c_blockchain :: "string option"
  c_description :: "string option"
  c_website :: "string option"
  c_twitter :: "string option"
  c_endDate :: "string option"
  c_totalValue :: "string option"
  c_status :: "status option"
  c_source :: string

definition mapSourceType :: "string \<Rightarrow> source_type" where
  "mapSourceType src =
     (if src \<in> set [''coingecko'', ''github''] then Api
      else if src \<in> set [''airdrop-alert''] then Scraping
      else if src \<in> set [''known-defi''] then Manual
      else Api)"

definition calculateSourceConfidence :: "string \<Rightarrow> nat" where
  "calculateSourceConfidence src =
     (case map_of [(''coingecko'', 90), (''known-defi'', 95), (''airdrop-alert'', 70),
                   (''github'', 60)] src of
        Some n \<Rightarrow> n
      | None \<Rightarrow> 50)"

text \<open>
  \<open>error.message\<close>. The texts of the two store errors are written by the store library
  and stand here in short.
\<close>

definition message :: "error \<Rightarrow> string" where
  "message err =
     (case err of
        SyncInProgress \<Rightarrow> ''Ya hay una sincronizaci'' @ [CHR 0xC3, CHR 0xB3] @ ''n en progreso''
      | ValidationError \<Rightarrow> ''VerifiedAirdrop validation failed''
      | DuplicateKey \<Rightarrow> ''E11000 duplicate key error''
      | Failure m \<Rightarrow> m)"

subsection \<open>Identity resolution\<close>

text \<open>
  The filter of the \<open>findOne\<close> in \<open>processAirdropData\<close>, a disjunction of three
  clauses. Query values are cast with the setters of the schema (\<open>lowercase\<close>, \<open>trim\<close>,
  \<open>uppercase\<close>); a clause whose value is \<open>undefined\<close> asks for a missing field and
  matches no stored document, every stored address being a string.
\<close>

definition matchesCandidate :: "candidate \<Rightarrow> VerifiedAirdrop \<Rightarrow> bool" where
  "matchesCandidate c d =
     ((case c_contractAddress c of None \<Rightarrow> False | Some a \<Rightarrow> contractAddress d = toLowerCase a)
      \<or> (case c_tokenAddress c of None \<Rightarrow> False | Some a \<Rightarrow> tokenAddress d = toLowerCase a)
      \<or> (name d = trim (c_name c) \<and> symbol d = toUpperCase (trim (c_symbol c))))"

subsection \<open>createNewVerifiedAirdrop\<close>

definition sourceUrl :: "candidate \<Rightarrow> string" where
  "sourceUrl c = orElse (c_website c) ''https://unknown.com''"

definition sourceEntry :: "date \<Rightarrow> candidate \<Rightarrow> source_entry" where
  "sourceEntry now c =
     \<lparr>stype = mapSourceType (c_source c), url = sourceUrl c, lastUpdated = now,
      confidence = calculateSourceConfidence (c_source c)\<rparr>"

text \<open>
  The document built by \<open>new VerifiedAirdrop({...})\<close>, the setters of the schema
  applied and the paths that the constructor is not given at their defaults. \<open>endDate\<close>
  is given apart: an invalid date makes the save fail.
\<close>

definition newDocument :: "date \<Rightarrow> candidate \<Rightarrow> date option \<Rightarrow> VerifiedAirdrop" where
  "newDocument now c ed =
     (let trusted = (c_source c \<in> set [''coingecko'', ''known-defi''])
      in \<lparr>name = trim (c_name c),
          symbol = toUpperCase (trim (c_symbol c)),
          contractAddress = toLowerCase (orElse (c_contractAddress c) []),
          tokenAddress =
            toLowerCase (orElse (c_tokenAddress c) (orElse (c_contractAddress c) [])),
          blockchain = orElse (c_blockchain c) ''ethereum'',
          description = orElse (c_description c) (c_name c @ '' token airdrop''),
          website = map_option trim (c_website c),
          twitter = map_option trim (c_twitter c),
          discord = None,
          telegram = None,
          startDate = None,
          endDate = ed,
          claimDeadline = None,
          totalValue = c_totalValue c,
          totalTokens = None,
          eligibleUsers = 0,
          claimedUsers = 0,
          requirements = \<lparr>minBalance = None, snapshotDate = None, holdingPeriod = None,
                          interactions = [], whitelistOnly = False, kyc = False\<rparr>,
          status = (case c_status c of None \<Rightarrow> Active | Some st \<Rightarrow> st),
          verificationLevel = (if trusted then Community else Unverified),
          sources = [sourceEntry now c],
          contractInfo = \<lparr>verified = False, hasClaimFunction = False, owner = None,
                          deployer = None, creationDate = None, lastActivity = None,
                          auditReports = []\<rparr>,
          distribution = \<lparr>distMethod = ClaimMethod, claimContract = None,
                          vestingSchedule = \<lparr>periods = None, periodDuration = None,
                                             initialRelease = None\<rparr>\<rparr>,
          socialMetrics = \<lparr>twitterFollowers = 0, discordMembers = 0, telegramMembers = 0,
                           lastSocialUpdate = None\<rparr>,
          risks = \<lparr>level = (if trusted then Low else Medium), factors = [], warnings = []\<rparr>,
          tags = [],
          metadata = \<lparr>addedBy = BySystem, addedAt = now, lastVerified = now,
                      verificationHistory =
                        [\<lparr>hdate = now, action = ''Airdrop created from external source'',
                          actor = ''system'', details = Some (''Source: '' @ c_source c)\<rparr>]\<rparr>,
          analytics = \<lparr>views = 0, claims = 0, successfulClaims = 0,
                       totalValueClaimed = Some ''0'', averageClaimValue = Some ''0'',
                       topClaimers = []\<rparr>,
          createdAt = None,
          updatedAt = None,
          version = 0\<rparr>)"

text \<open>
  \<open>createNewVerifiedAirdrop\<close> returns the saved document, or \<open>null\<close> when the save
  throws: the error is logged and swallowed. The mirror written to the legacy collection
  after a successful save lives in another collection and swallows its own errors; it is
  not part of the model.
\<close>

definition createNewVerifiedAirdrop ::
  "env \<Rightarrow> date \<Rightarrow> candidate \<Rightarrow> store \<Rightarrow> VerifiedAirdrop option \<times> store" where
  "createNewVerifiedAirdrop e now c db =
     (let ed = (case c_endDate c of
                  None \<Rightarrow> Inr None
                | Some s \<Rightarrow> if s = [] then Inr None
                            else (case parseDate e s of None \<Rightarrow> Inl ValidationError
                                                      | Some t \<Rightarrow> Inr (Some t)))
      in case ed of
           Inl _ \<Rightarrow> (None, db)
         | Inr v \<Rightarrow> (case saveNew e now (newDocument now c v) db of
                       Inl _ \<Rightarrow> (None, db)
                     | Inr (saved, db') \<Rightarrow> (Some saved, db')))"

subsection \<open>updateExistingAirdrop\<close>

definition mergeDescription :: "candidate \<Rightarrow> VerifiedAirdrop \<Rightarrow> VerifiedAirdrop" where
  "mergeDescription c d =
     (case c_description c of
        None \<Rightarrow> d
      | Some v \<Rightarrow> if v \<noteq> [] \<and> v \<noteq> description d then d\<lparr>description := v\<rparr> else d)"

definition mergeWebsite :: "candidate \<Rightarrow> VerifiedAirdrop \<Rightarrow> VerifiedAirdrop" where
  "mergeWebsite c d =
     (case c_website c of
        None \<Rightarrow> d
      | Some v \<Rightarrow> if v \<noteq> [] \<and> Some v \<noteq> website d then d\<lparr>website := Some (trim v)\<rparr> else d)"

definition mergeEndDate :: "env \<Rightarrow> candidate \<Rightarrow> VerifiedAirdrop \<Rightarrow> error + VerifiedAirdrop" where
  "mergeEndDate e c d =
     (case c_endDate c of
        None \<Rightarrow> Inr d
      | Some s \<Rightarrow>
          if s = [] then Inr d
          else (case parseDate e s of
                  None \<Rightarrow> Inl ValidationError
                | Some t \<Rightarrow> if endDate d = None \<or> Some t \<noteq> endDate d
                           then Inr (d\<lparr>endDate := Some t\<rparr>) else Inr d))"

definition mergeTotalValue :: "candidate \<Rightarrow> VerifiedAirdrop \<Rightarrow> VerifiedAirdrop" where
  "mergeTotalValue c d =
     (case c_totalValue c of
        None \<Rightarrow> d
      | Some v \<Rightarrow> if v \<noteq> [] \<and> Some v \<noteq> totalValue d then d\<lparr>totalValue := Some v\<rparr> else d)"

definition mergeSource :: "date \<Rightarrow> candidate \<Rightarrow> VerifiedAirdrop \<Rightarrow> VerifiedAirdrop" where
  "mergeSource now c d =
     (if \<exists>s \<in> set (sources d). url s = sourceUrl c then d
      else d\<lparr>sources := sources d @ [sourceEntry now c]\<rparr>)"

text \<open>
  \<open>updateExistingAirdrop e now existing newData\<close>: the stored document after the
  merge, or the error that \<open>save\<close> throws (an end date that does not parse is assigned as
  an invalid date and fails the save).
\<close>

definition updateExistingAirdrop ::
  "env \<Rightarrow> date \<Rightarrow> VerifiedAirdrop \<Rightarrow> candidate \<Rightarrow> error + VerifiedAirdrop" where
  "updateExistingAirdrop e now existing newData =
     (case mergeEndDate e newData (mergeWebsite newData (mergeDescription newData existing)) of
        Inl err \<Rightarrow> Inl err
      | Inr d \<Rightarrow>
          saveLoaded e now existing
            (setLastVerified now (mergeSource now newData (mergeTotalValue newData d))))"

subsection \<open>verifyAndUpdateContract\<close>

definition setContractInfo :: "ContractInfo \<Rightarrow> date \<Rightarrow> VerifiedAirdrop \<Rightarrow> VerifiedAirdrop" where
  "setContractInfo info now d =
     stamp now
       (setLastVerified now
          (d\<lparr>contractInfo := (contractInfo d)
               \<lparr>verified := p_verified info,
                hasClaimFunction := (case p_hasClaimFunction info of None \<Rightarrow> False | Some b \<Rightarrow> b),
                owner := map_option toLowerCase (p_owner info),
                lastActivity := p_lastActivity info\<rparr>\<rparr>))"

definition raiseToCommunity :: "date \<Rightarrow> VerifiedAirdrop \<Rightarrow> VerifiedAirdrop" where
  "raiseToCommunity now d =
     stamp now (d\<lparr>verificationLevel := Community, risks := (risks d)\<lparr>level := Low\<rparr>\<rparr>)"

text \<open>
  Both writes are \<open>updateOne\<close> calls on the collection: no document is loaded and the
  pre-save middleware does not run. A value that is \<open>undefined\<close> in the probe result is
  written as an absent one.
\<close>

definition verifyAndUpdateContract ::
  "prober \<Rightarrow> date \<Rightarrow> string \<Rightarrow> string option \<Rightarrow> store \<Rightarrow> store" where
  "verifyAndUpdateContract probe now a b db =
     (let info = probe a (orEthereum b);
          db1 = updateOne (\<lambda>d. contractAddress d = toLowerCase a) (setContractInfo info now) db
      in if p_verified info \<and> p_isValid info
         then updateOne (\<lambda>d. contractAddress d = toLowerCase a \<and> verificationLevel d = Unverified)
                (raiseToCommunity now) db1
         else db1)"

subsection \<open>processAirdropData\<close>

definition verifyCandidateContract ::
  "prober \<Rightarrow> date \<Rightarrow> candidate \<Rightarrow> store \<times> SyncResult \<Rightarrow> store \<times> SyncResult" where
  "verifyCandidateContract probe now c st =
     (case c_contractAddress c of
        None \<Rightarrow> st
      | Some a \<Rightarrow>
          if a = [] then st
          else (verifyAndUpdateContract probe now a (c_blockchain c) (fst st),
                (snd st)\<lparr>verifiedContracts := verifiedContracts (snd st) + 1\<rparr>))"

definition processAirdropData ::
  "env \<Rightarrow> prober \<Rightarrow> date \<Rightarrow> candidate \<Rightarrow> store \<times> SyncResult \<Rightarrow> error + store \<times> SyncResult" where
  "processAirdropData e probe now c st =
     (case findIndex (matchesCandidate c) (fst st) of
        Some i \<Rightarrow>
          (case updateExistingAirdrop e now (fst st ! i) c of
             Inl err \<Rightarrow> Inl err
           | Inr d \<Rightarrow>
               Inr (verifyCandidateContract probe now c
                      ((fst st)[i := d],
                       (snd st)\<lparr>updatedAirdrops := updatedAirdrops (snd st) + 1\<rparr>)))
      | None \<Rightarrow>
          (case createNewVerifiedAirdrop e now c (fst st) of
             (None, db) \<Rightarrow> Inr (verifyCandidateContract probe now c (db, snd st))
           | (Some saved, db) \<Rightarrow>
               Inr (verifyCandidateContract probe now c
                      (db, (snd st)\<lparr>newAirdrops := newAirdrops (snd st) + 1\<rparr>))))"

subsection \<open>updateExistingAirdrops and cleanupObsoleteData\<close>

definition pastDate :: "date \<Rightarrow> date option \<Rightarrow> bool" where
  "pastDate now t = (case t of None \<Rightarrow> False | Some v \<Rightarrow> v < now)"

definition expired :: "date \<Rightarrow> VerifiedAirdrop \<Rightarrow> bool" where
  "expired now d =
     ((status d = Active \<or> status d = Upcoming)
      \<and> (pastDate now (endDate d) \<or> pastDate now (claimDeadline d)))"

definition markEnded :: "VerifiedAirdrop \<Rightarrow> VerifiedAirdrop" where
  "markEnded d = d\<lparr>status := Ended\<rparr>"

text \<open>
  One turn of the loop over the active and upcoming documents that carry a contract
  address: a document found inactive on chain is ended and saved; an error thrown by its
  save is dropped and the loop goes on.
\<close>

definition checkLiveness :: "env \<Rightarrow> prober \<Rightarrow> date \<Rightarrow> VerifiedAirdrop \<Rightarrow> VerifiedAirdrop" where
  "checkLiveness e probe now d =
     (if (status d = Active \<or> status d = Upcoming) \<and> contractAddress d \<noteq> []
      then (if \<not> isAirdropActive probe now (contractAddress d) (blockchain d)
               \<and> status d = Active
            then (case saveLoaded e now d (markEnded d) of Inl _ \<Rightarrow> d | Inr s \<Rightarrow> s)
            else d)
      else d)"

definition updateExistingAirdrops :: "env \<Rightarrow> prober \<Rightarrow> date \<Rightarrow> store \<Rightarrow> store" where
  "updateExistingAirdrops e probe now db =
     map (checkLiveness e probe now)
       (updateMany (expired now) (\<lambda>d. stamp now (markEnded d)) db)"

definition obsolete :: "date \<Rightarrow> VerifiedAirdrop \<Rightarrow> bool" where
  "obsolete now d =
     (status d = Ended \<and> lastVerified (metadata d) < monthsBefore 3 now
      \<and> views (analytics d) < 10 \<and> verificationLevel d = Unverified)"

definition cleanupObsoleteData :: "date \<Rightarrow> store \<Rightarrow> store" where
  "cleanupObsoleteData now db = deleteMany (obsolete now) db"

subsection \<open>syncRealAirdrops\<close>

text \<open>
  The service object and the collection it writes. A sync reads the clock and the chain
  many times; the model takes one instant and one prober for the whole run.
\<close>

record sync_state =
  isSyncing :: bool
  lastSyncResult :: "SyncResult option"
  collection :: store

type_synonym sync_step = "sync_state \<times> SyncResult \<Rightarrow> sync_state \<times> SyncResult"

definition pushError :: "string \<Rightarrow> sync_step" where
  "pushError m st = (fst st, (snd st)\<lparr>errors := errors (snd st) @ [m]\<rparr>)"

definition onCollection :: "(store \<Rightarrow> store) \<Rightarrow> sync_step" where
  "onCollection f st = ((fst st)\<lparr>collection := f (collection (fst st))\<rparr>, snd st)"

definition processCandidate :: "env \<Rightarrow> prober \<Rightarrow> date \<Rightarrow> candidate \<Rightarrow> sync_step" where
  "processCandidate e probe now c st =
     (case processAirdropData e probe now c (collection (fst st), snd st) of
        Inl err \<Rightarrow> pushError (''Error procesando '' @ c_name c @ '': '' @ message err) st
      | Inr (db, r) \<Rightarrow> ((fst st)\<lparr>collection := db\<rparr>, r))"

definition storeResult :: sync_step where
  "storeResult st = ((fst st)\<lparr>lastSyncResult := Some (snd st)\<rparr>, snd st)"

text \<open>
  The body of the \<open>try\<close> block as the list of its steps, each between two suspension
  points; \<open>fetched\<close> is what \<open>fetchRealAirdrops\<close> resolves to. When it throws, the
  \<open>catch\<close> block records the general error and nothing else runs. The statistics
  step only reads the collection and logs; it is left out.
\<close>

definition syncSteps :: "env \<Rightarrow> prober \<Rightarrow> date \<Rightarrow> error + candidate list \<Rightarrow> sync_step list" where
  "syncSteps e probe now fetched =
     (case fetched of
        Inl err \<Rightarrow> [pushError (''Error general: '' @ message err)]
      | Inr cs \<Rightarrow>
          map (processCandidate e probe now) cs
          @ [onCollection (updateExistingAirdrops e probe now),
             onCollection (cleanupObsoleteData now),
             storeResult])"

definition runSteps :: "sync_step list \<Rightarrow> sync_state \<times> SyncResult \<Rightarrow> sync_state \<times> SyncResult" where
  "runSteps steps st = fold (\<lambda>f x. f x) steps st"

definition emptyResult :: "date \<Rightarrow> SyncResult" where
  "emptyResult now =
     \<lparr>newAirdrops = 0, updatedAirdrops = 0, verifiedContracts = 0, errors = [], lastSync = now\<rparr>"

text \<open>
  \<open>syncProgress ... k s\<close>: the service \<open>k\<close> steps into a sync that was accepted in state
  \<open>s\<close>, the state another caller meets at that suspension point.
\<close>

definition syncProgress ::
  "env \<Rightarrow> prober \<Rightarrow> date \<Rightarrow> error + candidate list \<Rightarrow> nat \<Rightarrow> sync_state \<Rightarrow> sync_state" where
  "syncProgress e probe now fetched k s =
     fst (runSteps (take k (syncSteps e probe now fetched)) (s\<lparr>isSyncing := True\<rparr>, emptyResult now))"

definition syncRealAirdrops ::
  "env \<Rightarrow> prober \<Rightarrow> date \<Rightarrow> error + candidate list \<Rightarrow> sync_state \<Rightarrow> (error + SyncResult) \<times> sync_state" where
  "syncRealAirdrops e probe now fetched s =
     (if isSyncing s then (Inl SyncInProgress, s)
      else let st = runSteps (syncSteps e probe now fetched) (s\<lparr>isSyncing := True\<rparr>, emptyResult now)
           in (Inr (snd st), (fst st)\<lparr>isSyncing := False\<rparr>))"

subsection \<open>The event-driven path\<close>

record AirdropEvent =
  ev_contractAddress :: string
  ev_tokenAddress :: "string option"
  ev_blockchain :: string
  ev_timestamp :: date

definition detectedCandidate :: "AirdropEvent \<Rightarrow> ContractInfo \<Rightarrow> candidate" where
  "detectedCandidate ev info =
     \<lparr>c_name = orElse (p_name info) (''Token '' @ take 8 (ev_contractAddress ev)),
      c_symbol = orElse (p_symbol info) ''UNKNOWN'',
      c_contractAddress = Some (ev_contractAddress ev),
      c_tokenAddress = Some (orElse (ev_tokenAddress ev) (ev_contractAddress ev)),
      c_blockchain = Some (ev_blockchain ev),
      c_description =
        Some (''Airdrop detectado autom'' @ [CHR 0xC3, CHR 0xA1] @ ''ticamente en blockchain ''
              @ ev_blockchain ev),
      c_website = None, c_twitter = None, c_endDate = None, c_totalValue = None,
      c_status = Some Active,
      c_source = ''monitoring''\<rparr>"

definition touchActivity :: "date \<Rightarrow> date \<Rightarrow> VerifiedAirdrop \<Rightarrow> VerifiedAirdrop" where
  "touchActivity ts now d =
     setLastVerified now (d\<lparr>contractInfo := (contractInfo d)\<lparr>lastActivity := Some ts\<rparr>\<rparr>)"

definition processDetectedAirdrop :: "env \<Rightarrow> prober \<Rightarrow> date \<Rightarrow> AirdropEvent \<Rightarrow> store \<Rightarrow> store" where
  "processDetectedAirdrop e probe now ev db =
     (case findIndex (\<lambda>d. contractAddress d = toLowerCase (ev_contractAddress ev)) db of
        Some i \<Rightarrow>
          (case saveLoaded e now (db ! i) (touchActivity (ev_timestamp ev) now (db ! i)) of
             Inl _ \<Rightarrow> db
           | Inr s \<Rightarrow> db[i := s])
      | None \<Rightarrow>
          (let info = probe (ev_contractAddress ev) (ev_blockchain ev)
           in if \<not> p_isValid info then db
              else snd (createNewVerifiedAirdrop e now (detectedCandidate ev info) db)))"

definition updateAirdropStatus :: "date \<Rightarrow> string \<Rightarrow> status \<Rightarrow> store \<Rightarrow> store" where
  "updateAirdropStatus now a st db =
     updateOne (\<lambda>d. contractAddress d = toLowerCase a)
       (\<lambda>d. stamp now (setLastVerified now (d\<lparr>status := st\<rparr>))) db"

section \<open>BlockchainMonitoringService: reconnection\<close>

text \<open>
  A timer is one \<open>setTimeout\<close> call of \<open>reconnectWebSocket\<close>: the blockchain and the
  value of \<open>attempts\<close> its callback closes over, the delay in milliseconds, and whether
  the callback has run. \<open>timers\<close> lists every timer ever scheduled, oldest first.
\<close>

record timer =
  t_blockchain :: string
  t_attempts :: nat
  t_delay :: nat
  t_fired :: bool

record monitor =
  maxReconnectAttempts :: nat
  reconnectInterval :: nat
  reconnectAttempts :: "string \<Rightarrow> nat option"
  wsConnections :: "string \<Rightarrow> nat option" \<comment> \<open>the socket of a blockchain, by serial number\<close>
  socketsCreated :: nat
  timers :: "timer list"

definition reconnectWebSocket :: "string \<Rightarrow> monitor \<Rightarrow> monitor" where
  "reconnectWebSocket b m =
     (let attempts = (case reconnectAttempts m b of None \<Rightarrow> 0 | Some n \<Rightarrow> n)
      in if attempts \<ge> maxReconnectAttempts m then m
         else m\<lparr>timers := timers m @
                  [\<lparr>t_blockchain = b, t_attempts = attempts,
                    t_delay = min (reconnectInterval m * 2 ^ attempts) 600000,
                    t_fired = False\<rparr>]\<rparr>)"

text \<open>
  \<open>setupWebSocketConnection\<close> creates the socket and registers its handlers inside a
  \<open>try\<close> block whose \<open>catch\<close> only logs: it returns normally whether or not
  \<open>new WebSocket\<close> throws (\<open>ctorThrows\<close>), and it returns before the socket has opened
  or failed.
\<close>

definition setupWebSocketConnection :: "bool \<Rightarrow> string \<Rightarrow> monitor \<Rightarrow> error + monitor" where
  "setupWebSocketConnection ctorThrows b m =
     (if ctorThrows then Inr m
      else Inr (m\<lparr>wsConnections := (wsConnections m)(b \<mapsto> socketsCreated m),
                  socketsCreated := socketsCreated m + 1\<rparr>))"

definition setAttempts :: "string \<Rightarrow> nat \<Rightarrow> monitor \<Rightarrow> monitor" where
  "setAttempts b n m = m\<lparr>reconnectAttempts := (reconnectAttempts m)(b \<mapsto> n)\<rparr>"

text \<open>The callback handed to \<open>setTimeout\<close>.\<close>

definition reconnectCallback :: "bool \<Rightarrow> timer \<Rightarrow> monitor \<Rightarrow> monitor" where
  "reconnectCallback ctorThrows t m =
     (let m1 = setAttempts (t_blockchain t) (t_attempts t + 1) m
      in case setupWebSocketConnection ctorThrows (t_blockchain t) m1 of
           Inl _ \<Rightarrow> m1
         | Inr m2 \<Rightarrow> setAttempts (t_blockchain t) 0 m2)"

text \<open>
  What can happen to a monitor: a socket of a blockchain emits \<open>error\<close>, \<open>close\<close> or
  \<open>open\<close>, or the pending timer number \<open>i\<close> fires. The \<open>error\<close> and \<open>close\<close> handlers
  both call \<open>reconnectWebSocket\<close>; the \<open>open\<close> handler subscribes and leaves the
  counters alone.
\<close>

datatype monitor_event = WsError string | WsClose string | WsOpen string | TimerFires nat bool

fun monitorStep :: "monitor_event \<Rightarrow> monitor \<Rightarrow> monitor" where
  "monitorStep (WsError b) m = reconnectWebSocket b m"
| "monitorStep (WsClose b) m = reconnectWebSocket b m"
| "monitorStep (WsOpen b) m = m"
| "monitorStep (TimerFires i ctorThrows) m =
     (if i < length (timers m) \<and> \<not> t_fired (timers m ! i)
      then reconnectCallback ctorThrows (timers m ! i)
             (m\<lparr>timers := (timers m)[i := (timers m ! i)\<lparr>t_fired := True\<rparr>]\<rparr>)
      else m)"

definition monitorRun :: "monitor_event list \<Rightarrow> monitor \<Rightarrow> monitor" where
  "monitorRun evs m = fold monitorStep evs m"

definition newMonitor :: "nat \<Rightarrow> nat \<Rightarrow> monitor" where
  "newMonitor maxAttempts interval =
     \<lparr>maxReconnectAttempts = maxAttempts, reconnectInterval = interval,
      reconnectAttempts = Map.empty, wsConnections = Map.empty, socketsCreated = 0,
      timers = []\<rparr>"

section \<open>Concrete inputs\<close>

text \<open>
  An environment for inputs that carry no date text and no total value. A loaded
  document is validated on every path, and the version key advances when a save changes
  one of the arrays of the document.
\<close>

definition plainEnv :: env where
  "plainEnv =
     \<lparr>parseDate = (\<lambda>s. None), parseFloat = (\<lambda>s. None),
      validatesLoaded = (\<lambda>orig d. validates d),
      bumpsVersion = (\<lambda>orig d. sources d \<noteq> sources orig \<or> tags d \<noteq> tags orig
                        \<or> verificationHistory (metadata d) \<noteq> verificationHistory (metadata orig)
                        \<or> factors (risks d) \<noteq> factors (risks orig)
                        \<or> warnings (risks d) \<noteq> warnings (risks orig))\<rparr>"

definition sampleRecord :: VerifiedAirdrop where
  "sampleRecord =
     \<lparr>name = ''Foo'', symbol = ''FOO'', contractAddress = ''0xaaa'', tokenAddress = ''0xaaa'',
      blockchain = ''ethereum'', description = ''Foo token airdrop'', website = None,
      twitter = None, discord = None, telegram = None, startDate = None, endDate = None,
      claimDeadline = None, totalValue = None, totalTokens = None, eligibleUsers = 0,
      claimedUsers = 0,
      requirements = \<lparr>minBalance = None, snapshotDate = None, holdingPeriod = None,
                      interactions = [], whitelistOnly = False, kyc = False\<rparr>,
      status = Active, verificationLevel = Unverified,
      sources = [\<lparr>stype = Api, url = ''https://unknown.com'', lastUpdated = 0,
                  confidence = 60\<rparr>],
      contractInfo = \<lparr>verified = False, hasClaimFunction = False, owner = None,
                      deployer = None, creationDate = None, lastActivity = None,
                      auditReports = []\<rparr>,
      distribution = \<lparr>distMethod = ClaimMethod, claimContract = None,
                      vestingSchedule = \<lparr>periods = None, periodDuration = None,
                                         initialRelease = None\<rparr>\<rparr>,
      socialMetrics = \<lparr>twitterFollowers = 0, discordMembers = 0, telegramMembers = 0,
                       lastSocialUpdate = None\<rparr>,
      risks = \<lparr>level = Medium, factors = [], warnings = []\<rparr>,
      tags = [''ethereum'', ''claim'', ''active''],
      metadata = \<lparr>addedBy = BySystem, addedAt = 0, lastVerified = 0,
                  verificationHistory =
                    [\<lparr>hdate = 0, action = ''Airdrop created from external source'',
                      actor = ''system'', details = Some ''Source: github''\<rparr>]\<rparr>,
      analytics = \<lparr>views = 0, claims = 0, successfulClaims = 0,
                   totalValueClaimed = Some ''0'', averageClaimValue = Some ''0'',
                   topClaimers = []\<rparr>,
      createdAt = Some 0, updatedAt = Some 0, version = 0\<rparr>"

definition sampleCandidate :: candidate where
  "sampleCandidate =
     \<lparr>c_name = ''Foo'', c_symbol = ''FOO'', c_contractAddress = Some ''0xbbb'',
      c_tokenAddress = Some ''0xbbb'', c_blockchain = Some ''ethereum'',
      c_description = None, c_website = None, c_twitter = None, c_endDate = None,
      c_totalValue = None, c_status = Some Active, c_source = ''github''\<rparr>"

definition sampleInfo :: "bool \<Rightarrow> bool \<Rightarrow> ContractInfo" where
  "sampleInfo valid ver = (baseInfo ''0xaaa'' ''ethereum'')\<lparr>p_isValid := valid, p_verified := ver\<rparr>"

text \<open>Properties of a monitor used in the statements on reconnection.\<close>

definition countersAtZero :: "monitor \<Rightarrow> bool" where
  "countersAtZero m = (\<forall>b. reconnectAttempts m b = None \<or> reconnectAttempts m b = Some 0)"

fun isDisconnect :: "monitor_event \<Rightarrow> bool" where
  "isDisconnect (WsError b) = True"
| "isDisconnect (WsClose b) = True"
| "isDisconnect (WsOpen b) = False"
| "isDisconnect (TimerFires i c) = False"

definition idleService :: sync_state where
  "idleService = \<lparr>isSyncing = False, lastSyncResult = None, collection = [sampleRecord]\<rparr>"

text \<open>The prober of a chain on which no address holds code.\<close>

definition deadProbe :: prober where
  "deadProbe a b = baseInfo a b"

text \<open>The document in memory when \<open>updateExistingAirdrop\<close> calls \<open>save\<close>.\<close>

definition mergedInMemory :: "date \<Rightarrow> candidate \<Rightarrow> VerifiedAirdrop \<Rightarrow> VerifiedAirdrop" where
  "mergedInMemory now c d = setLastVerified now (mergeSource now c (mergeTotalValue c d))"

definition richCandidate :: candidate where
  "richCandidate =
     \<lparr>c_name = ''Foo'', c_symbol = ''FOO'', c_contractAddress = Some ''0xaaa'',
      c_tokenAddress = Some ''0xaaa'', c_blockchain = Some ''ethereum'',
      c_description = Some ''Foo governance token'', c_website = Some ''https://foo.io'',
      c_twitter = None, c_endDate = Some [], c_totalValue = Some ''1000'',
      c_status = Some Active, c_source = ''known-defi''\<rparr>"

text \<open>The prober that \<open>verifyContract\<close> makes of the answers of a chain.\<close>

definition chainProbe :: "(string \<Rightarrow> string \<Rightarrow> chain_reads) \<Rightarrow> prober" where
  "chainProbe reads a b = verifyContract (reads a b) a b"

text \<open>
  The answers for a verified token contract that holds code and has an owner; the same
  with an address where no code is deployed; with a node that fails the call of
  \<open>name()\<close>; and with every check after the code failing.
\<close>

definition tokenReads :: chain_reads where
  "tokenReads =
     \<lparr>isValidAddress = True, providerKnown = True, explorerKey = True,
      getCode = Inr ''0x6080'', sourceCode = Inr (Some ''contract Foo {}''),
      tokenName = Inr ''Foo'', tokenSymbol = Inr ''FOO'', tokenDecimals = Inr 18,
      tokenTotalSupply = Inr ''1000000'',
      getFunction = (\<lambda>m. if m = ''claim'' then Inl (Failure ''ambiguous function description'')
                          else Inr True),
      ownerCall = Inr ''0xDDD'', getOwnerCall = Inl (Failure ''call revert exception''),
      txlist = Inr (Some 4)\<rparr>"

definition codelessReads :: chain_reads where
  "codelessReads = tokenReads\<lparr>getCode := Inr ''0x''\<rparr>"

definition namelessReads :: chain_reads where
  "namelessReads = tokenReads\<lparr>tokenName := Inl (Failure ''call revert exception'')\<rparr>"

definition failingReads :: chain_reads where
  "failingReads =
     tokenReads\<lparr>sourceCode := Inl (Failure ''Network Error''),
                tokenSymbol := Inl (Failure ''call revert exception''),
                ownerCall := Inl (Failure ''call revert exception''),
                txlist := Inl (Failure ''Network Error'')\<rparr>"

definition sampleAddress :: string where
  "sampleAddress = ''0x6b175474e89094c44da98b954eedeac495271d0f''"

definition sampleEvent :: AirdropEvent where
  "sampleEvent =
     \<lparr>ev_contractAddress = ''0x6B175474E89094C44DA98B954EEDEAC495271D0F'', ev_tokenAddress = None, ev_blockchain = ''ethereum'',
      ev_timestamp = 8\<rparr>"


text \<open>The audit log of a record, and what it means for a write to keep it.\<close>

definition history :: "VerifiedAirdrop \<Rightarrow> history_entry list" where
  "history d = verificationHistory (metadata d)"

definition historyKept :: "store \<Rightarrow> store \<Rightarrow> bool" where
  "historyKept db db' =
     (length db \<le> length db' \<and> (\<forall>i<length db. prefix (history (db ! i)) (history (db' ! i))))"

definition levelChangeEntry :: "date \<Rightarrow> verification_level \<Rightarrow> history_entry" where
  "levelChangeEntry now lv =
     \<lparr>hdate = now, action = ''Verification level changed to '' @ levelName lv,
      actor = ''system'', details = Some ''Previous level: true''\<rparr>"



section \<open>Lemmas on the store operations\<close>

lemma findIndex_Some:
  "findIndex P xs = Some i \<Longrightarrow> i < length xs \<and> P (xs ! i) \<and> (\<forall>j<i. \<not> P (xs ! j))"
proof (induction xs arbitrary: i)
  case Nil
  then show ?case by simp
next
  case (Cons x xs)
  show ?case
  proof (cases "P x")
    case True
    with Cons.prems show ?thesis by simp
  next
    case False
    with Cons.prems obtain k where k: "findIndex P xs = Some k" "i = Suc k"
      by auto
    from Cons.IH[OF k(1)] False k(2) show ?thesis
      by (auto simp: nth_Cons split: nat.splits)
  qed
qed

lemma findIndex_None: "findIndex P xs = None \<longleftrightarrow> (\<forall>x \<in> set xs. \<not> P x)"
  by (induction xs) auto

lemma length_updateOne: "length (updateOne flt upd db) = length db"
  by (simp add: updateOne_def split: option.splits)

lemma nth_updateOne:
  "i < length db \<Longrightarrow>
   updateOne flt upd db ! i = (if findIndex flt db = Some i then upd (db ! i) else db ! i)"
  by (auto simp: updateOne_def nth_list_update dest: findIndex_Some split: option.splits)

lemma map_list_update_same: "f v = f (xs ! i) \<Longrightarrow> map f (xs[i := v]) = map f xs"
  by (cases "i < length xs") (simp_all add: map_update list_update_same_conv list_update_beyond)

lemma map_updateOne_same:
  "(\<And>d. f (upd d) = f d) \<Longrightarrow> map f (updateOne flt upd db) = map f db"
  by (auto simp: updateOne_def map_update list_update_same_conv dest: findIndex_Some
      split: option.splits)

lemma stamp_simps [simp]:
  "name (stamp now d) = name d"
  "symbol (stamp now d) = symbol d"
  "contractAddress (stamp now d) = contractAddress d"
  "tokenAddress (stamp now d) = tokenAddress d"
  "blockchain (stamp now d) = blockchain d"
  "description (stamp now d) = description d"
  "website (stamp now d) = website d"
  "endDate (stamp now d) = endDate d"
  "claimDeadline (stamp now d) = claimDeadline d"
  "totalValue (stamp now d) = totalValue d"
  "status (stamp now d) = status d"
  "verificationLevel (stamp now d) = verificationLevel d"
  "sources (stamp now d) = sources d"
  "contractInfo (stamp now d) = contractInfo d"
  "risks (stamp now d) = risks d"
  "tags (stamp now d) = tags d"
  "metadata (stamp now d) = metadata d"
  "analytics (stamp now d) = analytics d"
  "createdAt (stamp now d) = createdAt d"
  "updatedAt (stamp now d) = Some now"
  "version (stamp now d) = version d"
  by (simp_all add: stamp_def)

section \<open>Risk warnings\<close>

lemma risks_preSave: "risks (preSave e now lm am d) = risks d"
  by (simp add: preSave_def pushHistory_def setLastVerified_def Let_def)

lemma risks_addRiskWarning:
  "risks (fst (addRiskWarning e now w f d)) = risks (addRiskWarningMem w f d)"
  by (simp add: addRiskWarning_def saveLoaded_def risks_preSave Let_def)

text \<open>
  C9. Right after an \<open>addRiskWarning\<close> call the risk level of the document is the
  function of the number of its warnings: \<open>high\<close> from three warnings on, \<open>medium\<close> for
  two, and with fewer the level the document had before the call. A warning that the
  document already lists is not appended again; a new one is appended at the end.
\<close>

theorem addRiskWarning_level:
  "level (risks (fst (addRiskWarning e now w f d))) =
     (if length (warnings (risks (fst (addRiskWarning e now w f d)))) \<ge> 3 then High
      else if length (warnings (risks (fst (addRiskWarning e now w f d)))) \<ge> 2 then Medium
      else level (risks d))
   \<and> warnings (risks (fst (addRiskWarning e now w f d))) =
       (if w \<in> set (warnings (risks d)) then warnings (risks d)
        else warnings (risks d) @ [w])"
  unfolding risks_addRiskWarning
  by (simp add: addRiskWarningMem_def Let_def)

theorem addRiskWarning_level_witness:
  "level (risks (fst (addRiskWarning plainEnv 5 ''b'' None
       (sampleRecord\<lparr>risks := \<lparr>level = Low, factors = [], warnings = [''a'']\<rparr>\<rparr>)))) = Medium
   \<and> warnings (risks (fst (addRiskWarning plainEnv 5 ''b'' None
       (sampleRecord\<lparr>risks := \<lparr>level = Low, factors = [], warnings = [''a'']\<rparr>\<rparr>)))) = [''a'', ''b'']
   \<and> level (risks (fst (addRiskWarning plainEnv 5 ''a'' None
       (sampleRecord\<lparr>risks := \<lparr>level = Low, factors = [], warnings = [''a'']\<rparr>\<rparr>)))) = Low"
  using addRiskWarning_level[of plainEnv 5 "''b''" None
          "sampleRecord\<lparr>risks := \<lparr>level = Low, factors = [], warnings = [''a'']\<rparr>\<rparr>"]
        addRiskWarning_level[of plainEnv 5 "''a''" None
          "sampleRecord\<lparr>risks := \<lparr>level = Low, factors = [], warnings = [''a'']\<rparr>\<rparr>"]
  by simp

section \<open>Reconnection of the monitor\<close>

lemma reconnectWebSocket_fields:
  "reconnectAttempts (reconnectWebSocket b m) = reconnectAttempts m"
  "maxReconnectAttempts (reconnectWebSocket b m) = maxReconnectAttempts m"
  by (simp_all add: reconnectWebSocket_def Let_def)

text \<open>
  The callback of a timer returns with the counter of its blockchain at zero, whether
  the socket it created will open or not and whether or not its constructor threw.
\<close>

lemma reconnectCallback_fields:
  "reconnectAttempts (reconnectCallback c t m) = (reconnectAttempts m)(t_blockchain t \<mapsto> 0)"
  "maxReconnectAttempts (reconnectCallback c t m) = maxReconnectAttempts m"
  "timers (reconnectCallback c t m) = timers m"
  by (simp_all add: reconnectCallback_def setupWebSocketConnection_def setAttempts_def Let_def)

lemma monitorStep_countersAtZero:
  "countersAtZero m \<Longrightarrow> countersAtZero (monitorStep ev m)"
  by (cases ev) (auto simp: countersAtZero_def reconnectWebSocket_fields reconnectCallback_fields)

lemma monitorStep_max: "maxReconnectAttempts (monitorStep ev m) = maxReconnectAttempts m"
  by (cases ev) (simp_all add: reconnectWebSocket_fields reconnectCallback_fields)

lemma monitorStep_timers:
  assumes "countersAtZero m" "0 < maxReconnectAttempts m"
  shows "length (timers (monitorStep ev m)) = length (timers m) + (if isDisconnect ev then 1 else 0)"
proof -
  have z: "(case reconnectAttempts m b of None \<Rightarrow> 0 | Some n \<Rightarrow> n) = 0" for b
    using assms(1)[unfolded countersAtZero_def, rule_format, of b] by (auto split: option.splits)
  show ?thesis
    using assms(2) by (cases ev) (simp_all add: reconnectWebSocket_def z reconnectCallback_fields)
qed

lemma monitorRun_timers:
  "countersAtZero m \<Longrightarrow> 0 < maxReconnectAttempts m \<Longrightarrow>
   length (timers (monitorRun evs m)) = length (timers m) + length (filter isDisconnect evs)"
proof (induction evs arbitrary: m)
  case Nil
  then show ?case by (simp add: monitorRun_def)
next
  case (Cons ev evs)
  have "length (timers (monitorRun evs (monitorStep ev m)))
        = length (timers (monitorStep ev m)) + length (filter isDisconnect evs)"
    using Cons.IH[of "monitorStep ev m"] Cons.prems
    by (simp add: monitorStep_countersAtZero monitorStep_max)
  then show ?case
    using monitorStep_timers[OF Cons.prems, of ev] by (simp add: monitorRun_def)
qed

text \<open>
  From a fresh monitor every \<open>error\<close> and every \<open>close\<close> event schedules a reconnect,
  however many came before: the counter that \<open>reconnectWebSocket\<close> compares with
  \<open>maxReconnectAttempts\<close> is never found above zero.
\<close>

lemma reconnects_unbounded:
  "0 < mx \<Longrightarrow>
   length (timers (monitorRun evs (newMonitor mx iv))) = length (filter isDisconnect evs)"
  using monitorRun_timers[of "newMonitor mx iv" evs]
  by (simp add: newMonitor_def countersAtZero_def)

text \<open>
  C2. With \<open>maxReconnectAttempts = 3\<close> and the interval of five minutes, one blockchain
  loses its connection four times in a row, each reconnect timer firing before the next
  loss. The claim allows three scheduled reconnects with delays growing as
  \<open>interval * 2^attempt\<close>; the code schedules four, each with attempt number 0 and the
  delay of the first.
\<close>

theorem reconnect_four_disconnects:
  "length (timers (monitorRun
      [WsClose ''ethereum'', TimerFires 0 False, WsClose ''ethereum'', TimerFires 1 False,
       WsClose ''ethereum'', TimerFires 2 False, WsClose ''ethereum'']
      (newMonitor 3 300000))) = 4
   \<and> map t_delay (timers (monitorRun
      [WsClose ''ethereum'', TimerFires 0 False, WsClose ''ethereum'', TimerFires 1 False,
       WsClose ''ethereum'', TimerFires 2 False, WsClose ''ethereum'']
      (newMonitor 3 300000))) = [300000, 300000, 300000, 300000]
   \<and> map t_attempts (timers (monitorRun
      [WsClose ''ethereum'', TimerFires 0 False, WsClose ''ethereum'', TimerFires 1 False,
       WsClose ''ethereum'', TimerFires 2 False, WsClose ''ethereum'']
      (newMonitor 3 300000))) = [0, 0, 0, 0]"
  by (simp add: monitorRun_def newMonitor_def reconnectWebSocket_def reconnectCallback_def
      setupWebSocketConnection_def setAttempts_def)

section \<open>Contract enrichment\<close>

lemma findIndex_first:
  assumes "i < length xs" "P (xs ! i)"
  shows "\<exists>j\<le>i. findIndex P xs = Some j"
proof -
  have "findIndex P xs \<noteq> None"
    using assms by (auto simp: findIndex_None)
  then obtain j where j: "findIndex P xs = Some j" by auto
  have "j \<le> i"
  proof (rule ccontr)
    assume "\<not> j \<le> i"
    then have "i < j" by simp
    with findIndex_Some[OF j] assms(2) show False by blast
  qed
  with j show ?thesis by blast
qed

lemma setContractInfo_frame:
  "verificationLevel (setContractInfo info now d) = verificationLevel d"
  "contractAddress (setContractInfo info now d) = contractAddress d"
  "risks (setContractInfo info now d) = risks d"
  by (simp_all add: setContractInfo_def setLastVerified_def)

lemma nth_contractInfoUpdate:
  assumes "i < length db"
  shows "verificationLevel (updateOne flt (setContractInfo info now) db ! i) = verificationLevel (db ! i)"
    and "contractAddress (updateOne flt (setContractInfo info now) db ! i) = contractAddress (db ! i)"
    and "risks (updateOne flt (setContractInfo info now) db ! i) = risks (db ! i)"
  using assms by (simp_all add: nth_updateOne setContractInfo_frame)

lemma length_verifyAndUpdateContract:
  "length (verifyAndUpdateContract probe now a b db) = length db"
  by (simp add: verifyAndUpdateContract_def Let_def length_updateOne)

lemma verifyAndUpdateContract_nth:
  assumes i: "i < length db"
  shows "verificationLevel (verifyAndUpdateContract probe now a b db ! i) = verificationLevel (db ! i)
         \<and> risks (verifyAndUpdateContract probe now a b db ! i) = risks (db ! i)
       \<or> p_verified (probe a (orEthereum b)) \<and> p_isValid (probe a (orEthereum b))
         \<and> contractAddress (db ! i) = toLowerCase a \<and> verificationLevel (db ! i) = Unverified
         \<and> verificationLevel (verifyAndUpdateContract probe now a b db ! i) = Community
         \<and> level (risks (verifyAndUpdateContract probe now a b db ! i)) = Low"
proof -
  let ?info = "probe a (orEthereum b)"
  let ?db1 = "updateOne (\<lambda>d. contractAddress d = toLowerCase a) (setContractInfo ?info now) db"
  let ?P2 = "\<lambda>d. contractAddress d = toLowerCase a \<and> verificationLevel d = Unverified"
  have i1: "i < length ?db1" using i by (simp add: length_updateOne)
  show ?thesis
  proof (cases "p_verified ?info \<and> p_isValid ?info")
    case False
    then have "verifyAndUpdateContract probe now a b db = ?db1"
      by (auto simp: verifyAndUpdateContract_def Let_def)
    then show ?thesis using nth_contractInfoUpdate[OF i] by simp
  next
    case True
    then have eq: "verifyAndUpdateContract probe now a b db = updateOne ?P2 (raiseToCommunity now) ?db1"
      by (simp add: verifyAndUpdateContract_def Let_def)
    show ?thesis
    proof (cases "findIndex ?P2 ?db1 = Some i")
      case hit: True
      from findIndex_Some[OF hit] have "?P2 (?db1 ! i)" by blast
      then have "contractAddress (db ! i) = toLowerCase a" "verificationLevel (db ! i) = Unverified"
        using nth_contractInfoUpdate[OF i] by simp_all
      moreover have "verifyAndUpdateContract probe now a b db ! i = raiseToCommunity now (?db1 ! i)"
        using hit i1 by (simp add: eq nth_updateOne)
      ultimately show ?thesis using True by (simp add: raiseToCommunity_def)
    next
      case miss: False
      then have "verifyAndUpdateContract probe now a b db ! i = ?db1 ! i"
        using i1 by (simp add: eq nth_updateOne)
      then show ?thesis using nth_contractInfoUpdate[OF i] by simp
    qed
  qed
qed

lemma verifyAndUpdateContract_raises:
  assumes i: "i < length db"
    and ok: "p_verified (probe a (orEthereum b))" "p_isValid (probe a (orEthereum b))"
    and d: "distinct (map contractAddress db)"
    and m: "contractAddress (db ! i) = toLowerCase a" "verificationLevel (db ! i) = Unverified"
  shows "verificationLevel (verifyAndUpdateContract probe now a b db ! i) = Community
         \<and> level (risks (verifyAndUpdateContract probe now a b db ! i)) = Low"
proof -
  let ?info = "probe a (orEthereum b)"
  let ?db1 = "updateOne (\<lambda>d. contractAddress d = toLowerCase a) (setContractInfo ?info now) db"
  let ?P2 = "\<lambda>d. contractAddress d = toLowerCase a \<and> verificationLevel d = Unverified"
  have i1: "i < length ?db1" using i by (simp add: length_updateOne)
  have eq: "verifyAndUpdateContract probe now a b db = updateOne ?P2 (raiseToCommunity now) ?db1"
    using ok by (simp add: verifyAndUpdateContract_def Let_def)
  have "?P2 (?db1 ! i)" using m nth_contractInfoUpdate[OF i] by simp
  from findIndex_first[OF i1, of ?P2, OF this] obtain j where
    j: "j \<le> i" "findIndex ?P2 ?db1 = Some j" by blast
  have jl: "j < length db" using j(1) i by simp
  from findIndex_Some[OF j(2)] have "contractAddress (?db1 ! j) = toLowerCase a" by blast
  then have "contractAddress (db ! j) = contractAddress (db ! i)"
    using nth_contractInfoUpdate(2)[OF jl] m(1) by simp
  then have "j = i"
    using d i jl by (auto simp: distinct_conv_nth)
  then have "verifyAndUpdateContract probe now a b db ! i = raiseToCommunity now (?db1 ! i)"
    using j(2) i1 by (simp add: eq nth_updateOne)
  then show ?thesis by (simp add: raiseToCommunity_def)
qed

text \<open>
  C1. Contract enrichment is a one-way ratchet. Whatever the probe answers and whatever
  the store holds, every record keeps its place and its verification level, or it was
  \<open>unverified\<close> and is now \<open>community\<close>: the level never moves down. When the probe
  reports the contract verified and valid, the record stored under the (lower-cased)
  address, if \<open>unverified\<close>, is raised to \<open>community\<close> and its risk level set to
  \<open>low\<close>; the store keeps \<open>contractAddress\<close> unique, so that record is the one the
  update reaches. For every other probe result, and for every other record, level and
  risks are left as they were; a later probe with \<open>verified = false\<close> therefore takes
  nothing back.
\<close>

theorem verifyAndUpdateContract_ratchet:
  "length (verifyAndUpdateContract probe now a b db) = length db
   \<and> (\<forall>i<length db.
        verificationLevel (verifyAndUpdateContract probe now a b db ! i) = verificationLevel (db ! i)
        \<or> verificationLevel (db ! i) = Unverified
          \<and> verificationLevel (verifyAndUpdateContract probe now a b db ! i) = Community)
   \<and> (\<forall>i<length db.
        p_verified (probe a (orEthereum b)) \<and> p_isValid (probe a (orEthereum b))
        \<and> distinct (map contractAddress db)
        \<and> contractAddress (db ! i) = toLowerCase a \<and> verificationLevel (db ! i) = Unverified
        \<longrightarrow> verificationLevel (verifyAndUpdateContract probe now a b db ! i) = Community
            \<and> level (risks (verifyAndUpdateContract probe now a b db ! i)) = Low)
   \<and> (\<forall>i<length db.
        \<not> (p_verified (probe a (orEthereum b)) \<and> p_isValid (probe a (orEthereum b))
            \<and> contractAddress (db ! i) = toLowerCase a \<and> verificationLevel (db ! i) = Unverified)
        \<longrightarrow> verificationLevel (verifyAndUpdateContract probe now a b db ! i) = verificationLevel (db ! i)
            \<and> risks (verifyAndUpdateContract probe now a b db ! i) = risks (db ! i))"
proof (intro conjI allI impI)
  show "length (verifyAndUpdateContract probe now a b db) = length db"
    by (rule length_verifyAndUpdateContract)
next
  fix i assume "i < length db"
  from verifyAndUpdateContract_nth[OF this, of probe now a b]
  show "verificationLevel (verifyAndUpdateContract probe now a b db ! i) = verificationLevel (db ! i)
        \<or> verificationLevel (db ! i) = Unverified
          \<and> verificationLevel (verifyAndUpdateContract probe now a b db ! i) = Community"
    by blast
next
  fix i assume i: "i < length db"
    and h: "p_verified (probe a (orEthereum b)) \<and> p_isValid (probe a (orEthereum b))
        \<and> distinct (map contractAddress db)
        \<and> contractAddress (db ! i) = toLowerCase a \<and> verificationLevel (db ! i) = Unverified"
  from verifyAndUpdateContract_raises[OF i, of probe a b now] h
  show "verificationLevel (verifyAndUpdateContract probe now a b db ! i) = Community"
    and "level (risks (verifyAndUpdateContract probe now a b db ! i)) = Low"
    by blast+
next
  fix i assume i: "i < length db"
    and h: "\<not> (p_verified (probe a (orEthereum b)) \<and> p_isValid (probe a (orEthereum b))
            \<and> contractAddress (db ! i) = toLowerCase a \<and> verificationLevel (db ! i) = Unverified)"
  from verifyAndUpdateContract_nth[OF i, of probe now a b] h
  show "verificationLevel (verifyAndUpdateContract probe now a b db ! i) = verificationLevel (db ! i)"
    and "risks (verifyAndUpdateContract probe now a b db ! i) = risks (db ! i)"
    by blast+
qed

lemma lower_0xAAA: "toLowerCase ''0xAAA'' = ''0xaaa''"
  by code_simp

theorem verifyAndUpdateContract_ratchet_witness:
  "(0::nat) < length [sampleRecord]
   \<and> p_verified (sampleInfo True True) \<and> p_isValid (sampleInfo True True)
   \<and> distinct (map contractAddress [sampleRecord])
   \<and> contractAddress ([sampleRecord] ! 0) = toLowerCase ''0xAAA''
   \<and> verificationLevel ([sampleRecord] ! 0) = Unverified
   \<and> verificationLevel
        (verifyAndUpdateContract (\<lambda>a b. sampleInfo True True) 7 ''0xAAA'' None [sampleRecord] ! 0)
       = Community
   \<and> level (risks
        (verifyAndUpdateContract (\<lambda>a b. sampleInfo True True) 7 ''0xAAA'' None [sampleRecord] ! 0))
       = Low
   \<and> verificationLevel
        (verifyAndUpdateContract (\<lambda>a b. sampleInfo True False) 8 ''0xAAA'' None
           (verifyAndUpdateContract (\<lambda>a b. sampleInfo True True) 7 ''0xAAA'' None [sampleRecord]) ! 0)
       = Community"
  using verifyAndUpdateContract_ratchet[of "\<lambda>a b. sampleInfo True True" 7 "''0xAAA''" None "[sampleRecord]"]
        verifyAndUpdateContract_ratchet[of "\<lambda>a b. sampleInfo True False" 8 "''0xAAA''" None
          "verifyAndUpdateContract (\<lambda>a b. sampleInfo True True) 7 ''0xAAA'' None [sampleRecord]"]
  by (simp add: lower_0xAAA sampleRecord_def sampleInfo_def baseInfo_def)

section \<open>The single-flight guard of the sync\<close>

lemma pushError_isSyncing: "isSyncing (fst (pushError m st)) = isSyncing (fst st)"
  by (simp add: pushError_def)

lemma onCollection_isSyncing: "isSyncing (fst (onCollection f st)) = isSyncing (fst st)"
  by (simp add: onCollection_def)

lemma storeResult_isSyncing: "isSyncing (fst (storeResult st)) = isSyncing (fst st)"
  by (simp add: storeResult_def)

lemma processCandidate_isSyncing:
  "isSyncing (fst (processCandidate e probe now c st)) = isSyncing (fst st)"
  by (simp add: processCandidate_def pushError_def split: sum.splits prod.splits)

lemma syncSteps_isSyncing:
  "f \<in> set (syncSteps e probe now fetched) \<Longrightarrow> isSyncing (fst (f st)) = isSyncing (fst st)"
  by (auto simp: syncSteps_def pushError_isSyncing onCollection_isSyncing storeResult_isSyncing
      processCandidate_isSyncing split: sum.splits)

lemma runSteps_isSyncing:
  "(\<And>f st. f \<in> set steps \<Longrightarrow> isSyncing (fst (f st)) = isSyncing (fst st)) \<Longrightarrow>
   isSyncing (fst (runSteps steps st)) = isSyncing (fst st)"
proof (induction steps arbitrary: st)
  case Nil
  then show ?case by (simp add: runSteps_def)
next
  case (Cons g steps)
  have "isSyncing (fst (runSteps steps (g st))) = isSyncing (fst (g st))"
    using Cons.IH[of "g st"] Cons.prems by simp
  then show ?case using Cons.prems[of g st] by (simp add: runSteps_def)
qed

lemma syncProgress_isSyncing: "isSyncing (syncProgress e probe now fetched k s)"
proof -
  have "isSyncing (fst (runSteps (take k (syncSteps e probe now fetched))
                          (s\<lparr>isSyncing := True\<rparr>, emptyResult now)))
        = isSyncing (fst (s\<lparr>isSyncing := True\<rparr>, emptyResult now))"
    by (rule runSteps_isSyncing) (auto dest: in_set_takeD syncSteps_isSyncing)
  then show ?thesis by (simp add: syncProgress_def)
qed

lemma sync_rejected: "isSyncing s \<Longrightarrow> syncRealAirdrops e probe now fetched s = (Inl SyncInProgress, s)"
  by (simp add: syncRealAirdrops_def)

lemma sync_accepted:
  "\<not> isSyncing s \<Longrightarrow>
   syncRealAirdrops e probe now fetched s =
     (Inr (snd (runSteps (syncSteps e probe now fetched) (s\<lparr>isSyncing := True\<rparr>, emptyResult now))),
      (syncProgress e probe now fetched (length (syncSteps e probe now fetched)) s)\<lparr>isSyncing := False\<rparr>)"
  by (simp add: syncRealAirdrops_def syncProgress_def Let_def)

text \<open>
  C3. The sync is single-flight. An invocation that finds a sync in progress fails at
  once with the in-progress error and leaves the service and the collection as they are.
  While an accepted sync runs, the guard is set after any number of its steps, so that
  an invocation arriving between two of them is rejected. The guard is released by the
  last act of the run, after all its steps, whether the run succeeded or recorded a
  general error; the invocation itself then returns a result, and the next invocation is
  accepted again.
\<close>

theorem sync_single_flight:
  "(isSyncing s \<longrightarrow> syncRealAirdrops e probe now fetched s = (Inl SyncInProgress, s))
   \<and> (\<forall>k. isSyncing (syncProgress e probe now fetched k s)
          \<and> syncRealAirdrops e2 probe2 now2 fetched2 (syncProgress e probe now fetched k s)
              = (Inl SyncInProgress, syncProgress e probe now fetched k s))
   \<and> (\<not> isSyncing s \<longrightarrow>
        (\<exists>r. fst (syncRealAirdrops e probe now fetched s) = Inr r)
        \<and> snd (syncRealAirdrops e probe now fetched s)
            = (syncProgress e probe now fetched (length (syncSteps e probe now fetched)) s)
                \<lparr>isSyncing := False\<rparr>
        \<and> \<not> isSyncing (snd (syncRealAirdrops e probe now fetched s))
        \<and> (\<exists>r. fst (syncRealAirdrops e2 probe2 now2 fetched2
                       (snd (syncRealAirdrops e probe now fetched s))) = Inr r))"
proof (intro conjI allI impI)
  assume "isSyncing s"
  then show "syncRealAirdrops e probe now fetched s = (Inl SyncInProgress, s)"
    by (rule sync_rejected)
next
  fix k
  show "isSyncing (syncProgress e probe now fetched k s)"
    by (rule syncProgress_isSyncing)
  then show "syncRealAirdrops e2 probe2 now2 fetched2 (syncProgress e probe now fetched k s)
              = (Inl SyncInProgress, syncProgress e probe now fetched k s)"
    by (rule sync_rejected)
next
  assume n: "\<not> isSyncing s"
  show "\<exists>r. fst (syncRealAirdrops e probe now fetched s) = Inr r"
    using n by (simp add: sync_accepted)
  show fin: "snd (syncRealAirdrops e probe now fetched s)
            = (syncProgress e probe now fetched (length (syncSteps e probe now fetched)) s)
                \<lparr>isSyncing := False\<rparr>"
    using n by (simp add: sync_accepted)
  then show rel: "\<not> isSyncing (snd (syncRealAirdrops e probe now fetched s))"
    by simp
  then show "\<exists>r. fst (syncRealAirdrops e2 probe2 now2 fetched2
                       (snd (syncRealAirdrops e probe now fetched s))) = Inr r"
    by (simp add: sync_accepted)
qed

theorem sync_single_flight_witness:
  "isSyncing (idleService\<lparr>isSyncing := True\<rparr>)
   \<and> syncRealAirdrops plainEnv (\<lambda>a b. sampleInfo True True) 9 (Inr [sampleCandidate])
        (idleService\<lparr>isSyncing := True\<rparr>)
       = (Inl SyncInProgress, idleService\<lparr>isSyncing := True\<rparr>)
   \<and> \<not> isSyncing idleService
   \<and> isSyncing (syncProgress plainEnv (\<lambda>a b. sampleInfo True True) 9 (Inr [sampleCandidate]) 1 idleService)
   \<and> \<not> isSyncing (snd (syncRealAirdrops plainEnv (\<lambda>a b. sampleInfo True True) 9
                          (Inr [sampleCandidate]) idleService))
   \<and> \<not> isSyncing (snd (syncRealAirdrops plainEnv (\<lambda>a b. sampleInfo True True) 9
                          (Inl (Failure ''fetch failed'')) idleService))"
  using sync_single_flight[of "idleService\<lparr>isSyncing := True\<rparr>" plainEnv "\<lambda>a b. sampleInfo True True" 9
          "Inr [sampleCandidate]"]
        sync_single_flight[of idleService plainEnv "\<lambda>a b. sampleInfo True True" 9
          "Inr [sampleCandidate]"]
        sync_single_flight[of idleService plainEnv "\<lambda>a b. sampleInfo True True" 9
          "Inl (Failure ''fetch failed'')"]
  by (simp add: idleService_def)

section \<open>Identity resolution\<close>

lemma sample_match: "findIndex (matchesCandidate sampleCandidate) [sampleRecord] = Some 0"
  by code_simp

lemma sample_addresses:
  "c_contractAddress sampleCandidate = Some ''0xbbb''"
  "c_tokenAddress sampleCandidate = Some ''0xbbb''"
  "contractAddress sampleRecord = ''0xaaa''"
  "tokenAddress sampleRecord = ''0xaaa''"
  by (simp_all add: sampleCandidate_def sampleRecord_def)

lemma sample_names:
  "name sampleRecord = trim (c_name sampleCandidate)"
  "symbol sampleRecord = toUpperCase (trim (c_symbol sampleCandidate))"
  by code_simp+

lemma sample_process:
  "\<not> isl (processAirdropData plainEnv deadProbe 9 sampleCandidate ([sampleRecord], emptyResult 9))"
  "length (fst (projr (processAirdropData plainEnv deadProbe 9 sampleCandidate
                         ([sampleRecord], emptyResult 9)))) = 1"
  "updatedAirdrops (snd (projr (processAirdropData plainEnv deadProbe 9 sampleCandidate
                         ([sampleRecord], emptyResult 9)))) = 1"
  "newAirdrops (snd (projr (processAirdropData plainEnv deadProbe 9 sampleCandidate
                         ([sampleRecord], emptyResult 9)))) = 0"
  by code_simp+

text \<open>
  C4, as stated, fails. The candidate carries the contract address \<open>0xbbb\<close> and the
  token address \<open>0xbbb\<close>; the one stored record has \<open>0xaaa\<close> for both and shares only
  name and symbol with the candidate. Identity resolution returns that record, and
  \<open>processAirdropData\<close> merges the candidate into it: one update, no new record.
\<close>

theorem name_symbol_match_counterexample:
  "c_contractAddress sampleCandidate = Some ''0xbbb''
   \<and> c_tokenAddress sampleCandidate = Some ''0xbbb''
   \<and> contractAddress sampleRecord = ''0xaaa''
   \<and> tokenAddress sampleRecord = ''0xaaa''
   \<and> findIndex (matchesCandidate sampleCandidate) [sampleRecord] = Some 0
   \<and> \<not> isl (processAirdropData plainEnv deadProbe 9 sampleCandidate ([sampleRecord], emptyResult 9))
   \<and> length (fst (projr (processAirdropData plainEnv deadProbe 9 sampleCandidate
                         ([sampleRecord], emptyResult 9)))) = 1
   \<and> updatedAirdrops (snd (projr (processAirdropData plainEnv deadProbe 9 sampleCandidate
                         ([sampleRecord], emptyResult 9)))) = 1
   \<and> newAirdrops (snd (projr (processAirdropData plainEnv deadProbe 9 sampleCandidate
                         ([sampleRecord], emptyResult 9)))) = 0"
  by (intro conjI sample_match sample_addresses sample_process)

lemma matchesCandidate_name_symbol:
  "name d = trim (c_name c) \<Longrightarrow> symbol d = toUpperCase (trim (c_symbol c)) \<Longrightarrow> matchesCandidate c d"
  by (simp add: matchesCandidate_def)

lemma matchesCandidate_clauses:
  "matchesCandidate c d \<longleftrightarrow>
     map_option toLowerCase (c_contractAddress c) = Some (contractAddress d)
     \<or> map_option toLowerCase (c_tokenAddress c) = Some (tokenAddress d)
     \<or> name d = trim (c_name c) \<and> symbol d = toUpperCase (trim (c_symbol c))"
  by (auto simp: matchesCandidate_def split: option.splits)

text \<open>
  C4, amended. Identity resolution returns the first stored record that agrees with the
  candidate on the contract address, or on the token address, or on both name and
  symbol, and none when no record does. The clause on name and symbol is part of the
  lookup for every candidate: a stored record that agrees with the candidate on name and
  symbol is enough for a match, whatever the contract address of the candidate.
\<close>

theorem identity_resolution:
  "(findIndex (matchesCandidate c) db = Some i \<longrightarrow>
      i < length db
      \<and> (\<forall>j<i. \<not> matchesCandidate c (db ! j))
      \<and> (map_option toLowerCase (c_contractAddress c) = Some (contractAddress (db ! i))
         \<or> map_option toLowerCase (c_tokenAddress c) = Some (tokenAddress (db ! i))
         \<or> name (db ! i) = trim (c_name c) \<and> symbol (db ! i) = toUpperCase (trim (c_symbol c))))
   \<and> ((\<exists>d \<in> set db. name d = trim (c_name c) \<and> symbol d = toUpperCase (trim (c_symbol c)))
        \<longrightarrow> (\<exists>k. findIndex (matchesCandidate c) db = Some k))
   \<and> (findIndex (matchesCandidate c) db = None \<longleftrightarrow>
        (\<forall>d \<in> set db.
           map_option toLowerCase (c_contractAddress c) \<noteq> Some (contractAddress d)
           \<and> map_option toLowerCase (c_tokenAddress c) \<noteq> Some (tokenAddress d)
           \<and> \<not> (name d = trim (c_name c) \<and> symbol d = toUpperCase (trim (c_symbol c)))))"
proof (intro conjI impI)
  assume f: "findIndex (matchesCandidate c) db = Some i"
  from findIndex_Some[OF f] show "i < length db" by blast
  from findIndex_Some[OF f] show "\<forall>j<i. \<not> matchesCandidate c (db ! j)" by blast
  from findIndex_Some[OF f] have "matchesCandidate c (db ! i)" by blast
  then show "map_option toLowerCase (c_contractAddress c) = Some (contractAddress (db ! i))
         \<or> map_option toLowerCase (c_tokenAddress c) = Some (tokenAddress (db ! i))
         \<or> name (db ! i) = trim (c_name c) \<and> symbol (db ! i) = toUpperCase (trim (c_symbol c))"
    by (simp only: matchesCandidate_clauses)
next
  assume "\<exists>d \<in> set db. name d = trim (c_name c) \<and> symbol d = toUpperCase (trim (c_symbol c))"
  then have "\<exists>d \<in> set db. matchesCandidate c d"
    by (auto intro: matchesCandidate_name_symbol)
  then have "findIndex (matchesCandidate c) db \<noteq> None"
    by (simp add: findIndex_None)
  then show "\<exists>k. findIndex (matchesCandidate c) db = Some k" by auto
next
  show "findIndex (matchesCandidate c) db = None \<longleftrightarrow>
        (\<forall>d \<in> set db.
           map_option toLowerCase (c_contractAddress c) \<noteq> Some (contractAddress d)
           \<and> map_option toLowerCase (c_tokenAddress c) \<noteq> Some (tokenAddress d)
           \<and> \<not> (name d = trim (c_name c) \<and> symbol d = toUpperCase (trim (c_symbol c))))"
    unfolding findIndex_None matchesCandidate_clauses by blast
qed

theorem identity_resolution_witness:
  "findIndex (matchesCandidate sampleCandidate) [sampleRecord] = Some 0
   \<and> sampleRecord \<in> set [sampleRecord]
   \<and> (0::nat) < length [sampleRecord]
   \<and> c_contractAddress sampleCandidate = Some ''0xbbb''
   \<and> contractAddress ([sampleRecord] ! 0) = ''0xaaa''
   \<and> name ([sampleRecord] ! 0) = trim (c_name sampleCandidate)
   \<and> symbol ([sampleRecord] ! 0) = toUpperCase (trim (c_symbol sampleCandidate))"
  using identity_resolution[of sampleCandidate "[sampleRecord]" 0]
    sample_match sample_addresses sample_names
  by simp

section \<open>Merging a candidate into an existing record\<close>

lemma preSave_unmodified_level:
  "lastVerified (metadata m) = now \<Longrightarrow>
   preSave e now False am m =
     (if tags m = [] then m\<lparr>tags := map toLowerCase (generateAutoTags e m)\<rparr> else m)"
  by (cases m) (auto simp: preSave_def setLastVerified_def Let_def)

lemma generateAutoTags_cong:
  "blockchain d = blockchain d' \<Longrightarrow> distribution d = distribution d' \<Longrightarrow>
   verificationLevel d = verificationLevel d' \<Longrightarrow> contractInfo d = contractInfo d' \<Longrightarrow>
   requirements d = requirements d' \<Longrightarrow> totalValue d = totalValue d' \<Longrightarrow>
   status d = status d' \<Longrightarrow> generateAutoTags e d = generateAutoTags e d'"
  by (simp add: generateAutoTags_def)

lemma mergeDescription_eq:
  "mergeDescription c d =
     d\<lparr>description := (if truthy (c_description c) \<and> c_description c \<noteq> Some (description d)
                        then the (c_description c) else description d)\<rparr>"
  by (cases d) (auto simp: mergeDescription_def truthy_def split: option.splits)

lemma mergeWebsite_eq:
  "mergeWebsite c d =
     d\<lparr>website := (if truthy (c_website c) \<and> c_website c \<noteq> website d
                    then map_option trim (c_website c) else website d)\<rparr>"
  by (cases d) (auto simp: mergeWebsite_def truthy_def split: option.splits)

lemma mergeTotalValue_eq:
  "mergeTotalValue c d =
     d\<lparr>totalValue := (if truthy (c_totalValue c) \<and> c_totalValue c \<noteq> totalValue d
                       then c_totalValue c else totalValue d)\<rparr>"
  by (cases d) (auto simp: mergeTotalValue_def truthy_def split: option.splits)

lemma mergeEndDate_eq:
  "mergeEndDate e c d = Inr d' \<Longrightarrow>
   d' = d\<lparr>endDate := (if truthy (c_endDate c) \<and> parseDate e (the (c_endDate c)) \<noteq> endDate d
                      then parseDate e (the (c_endDate c)) else endDate d)\<rparr>
   \<and> (truthy (c_endDate c) \<longrightarrow> parseDate e (the (c_endDate c)) \<noteq> None)"
  by (cases d) (auto simp: mergeEndDate_def truthy_def split: option.splits if_splits)

lemma mergeSource_eq:
  "mergeSource now c d =
     d\<lparr>sources := (if sourceUrl c \<in> set (map url (sources d)) then sources d
                    else sources d @ [sourceEntry now c])\<rparr>"
  by (cases d) (auto simp: mergeSource_def intro: rev_image_eqI)

text \<open>
  What \<open>save\<close> makes of the merged document \<open>m\<close> of a record loaded as \<open>d\<close>: the
  timestamp, the tags, the version key.
\<close>

lemma updateExistingAirdrop_Inr:
  assumes "updateExistingAirdrop e now d c = Inr d'"
  shows "\<exists>dE m s t. mergeEndDate e c (mergeWebsite c (mergeDescription c d)) = Inr dE
              \<and> m = mergedInMemory now c dE
              \<and> validatesLoaded e d m
              \<and> s = (if m \<noteq> d then stamp now m else m)
              \<and> t = (if tags s = [] then s\<lparr>tags := map toLowerCase (generateAutoTags e s)\<rparr>
                     else s)
              \<and> d' = (if bumpsVersion e d t then t\<lparr>version := version t + 1\<rparr> else t)"
proof -
  from assms obtain dE where
    dE: "mergeEndDate e c (mergeWebsite c (mergeDescription c d)) = Inr dE"
    and sv: "saveLoaded e now d (mergedInMemory now c dE) = Inr d'"
    by (auto simp: updateExistingAirdrop_def mergedInMemory_def split: sum.splits)
  define m where "m = mergedInMemory now c dE"
  define s where "s = (if m \<noteq> d then stamp now m else m)"
  define t where "t = (if tags s = [] then s\<lparr>tags := map toLowerCase (generateAutoTags e s)\<rparr>
                       else s)"
  have lv: "verificationLevel m = verificationLevel d"
    using mergeEndDate_eq[OF dE]
    by (simp add: m_def mergedInMemory_def setLastVerified_def mergeSource_eq mergeTotalValue_eq
        mergeWebsite_eq mergeDescription_eq)
  have "lastVerified (metadata m) = now"
    by (simp add: m_def mergedInMemory_def setLastVerified_def)
  then have now: "lastVerified (metadata s) = now"
    by (cases "m = d") (simp_all add: s_def)
  from sv have v: "validatesLoaded e d m"
    by (auto simp: saveLoaded_def m_def split: if_splits)
  from sv v have "d' = (let d2 = preSave e now False (m \<noteq> d) s
                        in if bumpsVersion e d d2 then d2\<lparr>version := version d2 + 1\<rparr> else d2)"
    by (simp add: saveLoaded_def lv m_def[symmetric] s_def[symmetric] Let_def)
  then have "d' = (if bumpsVersion e d t then t\<lparr>version := version t + 1\<rparr> else t)"
    by (simp only: preSave_unmodified_level[OF now] t_def[symmetric] Let_def)
  with dE v m_def s_def t_def show ?thesis by blast
qed

lemma updateExistingAirdrop_fields:
  assumes "updateExistingAirdrop e now d c = Inr d'"
  shows "description d' = (if truthy (c_description c) \<and> c_description c \<noteq> Some (description d)
                           then the (c_description c) else description d)"
    and "website d' = (if truthy (c_website c) \<and> c_website c \<noteq> website d
                       then map_option trim (c_website c) else website d)"
    and "endDate d' = (if truthy (c_endDate c) \<and> parseDate e (the (c_endDate c)) \<noteq> endDate d
                       then parseDate e (the (c_endDate c)) else endDate d)"
    and "totalValue d' = (if truthy (c_totalValue c) \<and> c_totalValue c \<noteq> totalValue d
                          then c_totalValue c else totalValue d)"
    and "sources d' = (if sourceUrl c \<in> set (map url (sources d)) then sources d
                       else sources d @ [sourceEntry now c])"
    and "tags d' = (if tags d = []
                    then map toLowerCase (generateAutoTags e (d\<lparr>totalValue := totalValue d'\<rparr>))
                    else tags d)"
    and "d' = d\<lparr>description := description d', website := website d', endDate := endDate d',
                 totalValue := totalValue d', sources := sources d', tags := tags d',
                 metadata := (metadata d)\<lparr>lastVerified := now\<rparr>,
                 updatedAt := updatedAt d', version := version d'\<rparr>"
    and "updatedAt d' =
           (if description d' \<noteq> description d \<or> website d' \<noteq> website d
               \<or> endDate d' \<noteq> endDate d \<or> totalValue d' \<noteq> totalValue d
               \<or> sources d' \<noteq> sources d \<or> lastVerified (metadata d) \<noteq> now
            then Some now else updatedAt d)"
    and "version d' = (if bumpsVersion e d (d'\<lparr>version := version d\<rparr>) then version d + 1
                       else version d)"
proof -
  from updateExistingAirdrop_Inr[OF assms] obtain dE m s t where
    dE: "mergeEndDate e c (mergeWebsite c (mergeDescription c d)) = Inr dE"
    and m: "m = mergedInMemory now c dE"
    and s: "s = (if m \<noteq> d then stamp now m else m)"
    and t: "t = (if tags s = [] then s\<lparr>tags := map toLowerCase (generateAutoTags e s)\<rparr> else s)"
    and d': "d' = (if bumpsVersion e d t then t\<lparr>version := version t + 1\<rparr> else t)"
    by blast
  note eqs = mergedInMemory_def setLastVerified_def mergeSource_eq mergeTotalValue_eq
    mergeWebsite_eq mergeDescription_eq
  let ?desc = "if truthy (c_description c) \<and> c_description c \<noteq> Some (description d)
               then the (c_description c) else description d"
  let ?web = "if truthy (c_website c) \<and> c_website c \<noteq> website d
              then map_option trim (c_website c) else website d"
  let ?end = "if truthy (c_endDate c) \<and> parseDate e (the (c_endDate c)) \<noteq> endDate d
              then parseDate e (the (c_endDate c)) else endDate d"
  let ?tv = "if truthy (c_totalValue c) \<and> c_totalValue c \<noteq> totalValue d
             then c_totalValue c else totalValue d"
  let ?src = "if sourceUrl c \<in> set (map url (sources d)) then sources d
              else sources d @ [sourceEntry now c]"
  from mergeEndDate_eq[OF dE] have dEeq:
    "dE = (mergeWebsite c (mergeDescription c d))\<lparr>endDate := ?end\<rparr>"
    by (simp add: eqs)
  have meq: "m = d\<lparr>description := ?desc, website := ?web, endDate := ?end, totalValue := ?tv,
                    sources := ?src, metadata := (metadata d)\<lparr>lastVerified := now\<rparr>\<rparr>"
    unfolding m dEeq by (cases d) (simp add: eqs)
  have mfields: "description m = ?desc" "website m = ?web" "endDate m = ?end"
    "totalValue m = ?tv" "sources m = ?src" "tags m = tags d" "version m = version d"
    "updatedAt m = updatedAt d" "metadata m = (metadata d)\<lparr>lastVerified := now\<rparr>"
    by (simp_all add: meq)
  have sm: "s = m \<or> s = stamp now m"
    by (simp add: s)
  have sfields: "description s = ?desc" "website s = ?web" "endDate s = ?end"
    "totalValue s = ?tv" "sources s = ?src" "tags s = tags d" "version s = version d"
    "metadata s = (metadata d)\<lparr>lastVerified := now\<rparr>"
    using sm by (auto simp: mfields)
  have mne: "m \<noteq> d \<longleftrightarrow> (?desc \<noteq> description d \<or> ?web \<noteq> website d \<or> ?end \<noteq> endDate d
                          \<or> ?tv \<noteq> totalValue d \<or> ?src \<noteq> sources d
                          \<or> lastVerified (metadata d) \<noteq> now)"
  proof
    assume "m \<noteq> d"
    show "?desc \<noteq> description d \<or> ?web \<noteq> website d \<or> ?end \<noteq> endDate d
          \<or> ?tv \<noteq> totalValue d \<or> ?src \<noteq> sources d \<or> lastVerified (metadata d) \<noteq> now"
    proof (rule ccontr)
      assume "\<not> ?thesis"
      then have "?desc = description d" "?web = website d" "?end = endDate d"
        "?tv = totalValue d" "?src = sources d" "lastVerified (metadata d) = now"
        by blast+
      then have "m = d" by (simp only: meq) simp
      with \<open>m \<noteq> d\<close> show False by simp
    qed
  next
    assume a: "?desc \<noteq> description d \<or> ?web \<noteq> website d \<or> ?end \<noteq> endDate d
          \<or> ?tv \<noteq> totalValue d \<or> ?src \<noteq> sources d \<or> lastVerified (metadata d) \<noteq> now"
    show "m \<noteq> d"
    proof
      assume md: "m = d"
      note mf = mfields[unfolded md]
      have "lastVerified (metadata d) = lastVerified ((metadata d)\<lparr>lastVerified := now\<rparr>)"
        by (subst mf(9)[symmetric]) (rule refl)
      then have "lastVerified (metadata d) = now" by simp
      with a mf(1-5)[symmetric] show False
        by (elim disjE) (erule notE, assumption)+
    qed
  qed
  have sup: "updatedAt s = (if m \<noteq> d then Some now else updatedAt d)"
    by (cases "m = d") (simp_all add: s mfields(8)) 
  have "generateAutoTags e m = generateAutoTags e (d\<lparr>totalValue := ?tv\<rparr>)"
    by (rule generateAutoTags_cong) (simp_all add: meq)
  moreover have "generateAutoTags e (stamp now m) = generateAutoTags e m"
    by (rule generateAutoTags_cong) (simp_all add: stamp_def)
  ultimately have gen: "generateAutoTags e s = generateAutoTags e (d\<lparr>totalValue := ?tv\<rparr>)"
    using sm by auto
  let ?tg = "if tags d = [] then map toLowerCase (generateAutoTags e (d\<lparr>totalValue := ?tv\<rparr>))
             else tags d"
  let ?up = "if m \<noteq> d then Some now else updatedAt d"
  have tfields: "description t = ?desc" "website t = ?web" "endDate t = ?end"
    "totalValue t = ?tv" "sources t = ?src" "version t = version d"
    "updatedAt t = ?up" "tags t = ?tg"
    by (simp_all add: t sfields sup gen)
  have seq: "s = d\<lparr>description := ?desc, website := ?web, endDate := ?end, totalValue := ?tv,
                    sources := ?src, metadata := (metadata d)\<lparr>lastVerified := now\<rparr>,
                    updatedAt := ?up\<rparr>"
    by (cases "m = d") (simp_all add: s meq stamp_def)
  have teq: "t = d\<lparr>description := ?desc, website := ?web, endDate := ?end, totalValue := ?tv,
                    sources := ?src, tags := ?tg, metadata := (metadata d)\<lparr>lastVerified := now\<rparr>,
                    updatedAt := ?up\<rparr>"
  proof (cases "tags d = []")
    case True
    then have "t = s\<lparr>tags := ?tg\<rparr>" by (simp add: t sfields gen)
    then show ?thesis by (subst (asm) seq) (simp add: True)
  next
    case False
    then have "t = s" by (simp add: t sfields)
    then show ?thesis by (subst (asm) seq) (simp add: False)
  qed
  show c1: "description d' = ?desc" by (simp add: d' tfields)
  show c2: "website d' = ?web" by (simp add: d' tfields)
  show c3: "endDate d' = ?end" by (simp add: d' tfields)
  show c4: "totalValue d' = ?tv" by (simp add: d' tfields)
  show c5: "sources d' = ?src" by (simp add: d' tfields)
  have c6: "tags d' = ?tg" by (simp add: d' tfields)
  then show "tags d' = (if tags d = []
                    then map toLowerCase (generateAutoTags e (d\<lparr>totalValue := totalValue d'\<rparr>))
                    else tags d)"
    unfolding c4 .
  have c7: "updatedAt d' = ?up" by (simp add: d' tfields)
  have "d' = t\<lparr>version := version d'\<rparr>"
    by (simp add: d')
  also have "\<dots> = (d\<lparr>description := ?desc, website := ?web, endDate := ?end, totalValue := ?tv,
                    sources := ?src, tags := ?tg, metadata := (metadata d)\<lparr>lastVerified := now\<rparr>,
                    updatedAt := ?up\<rparr>)\<lparr>version := version d'\<rparr>"
    by (subst teq) (rule refl)
  finally show "d' = d\<lparr>description := description d', website := website d', endDate := endDate d',
                 totalValue := totalValue d', sources := sources d', tags := tags d',
                 metadata := (metadata d)\<lparr>lastVerified := now\<rparr>,
                 updatedAt := updatedAt d', version := version d'\<rparr>"
    unfolding c1 c2 c3 c4 c5 c6 c7 .
  show "updatedAt d' =
           (if description d' \<noteq> description d \<or> website d' \<noteq> website d
               \<or> endDate d' \<noteq> endDate d \<or> totalValue d' \<noteq> totalValue d
               \<or> sources d' \<noteq> sources d \<or> lastVerified (metadata d) \<noteq> now
            then Some now else updatedAt d)"
    unfolding c1 c2 c3 c4 c5 c7 using mne by (simp only:)
  have tv: "t\<lparr>version := version d\<rparr> = t"
    using tfields(6) by (cases t) auto
  have "d'\<lparr>version := version d\<rparr> = t"
    unfolding d' using tv by auto
  then have "bumpsVersion e d (d'\<lparr>version := version d\<rparr>) = bumpsVersion e d t"
    by (rule arg_cong)
  then show "version d' = (if bumpsVersion e d (d'\<lparr>version := version d\<rparr>) then version d + 1
                       else version d)"
    by (simp add: d' tfields(6))
qed

text \<open>
  C5, as stated, fails: the merge overwrites more than the four fields. The candidate
  carries no description, website, end date or total value, and its source URL is
  already listed; the merge still writes \<open>metadata.lastVerified\<close> and, with it, the
  timestamp \<open>updatedAt\<close>, here both from 0 to 9.
\<close>

theorem merge_refreshes_lastVerified_counterexample:
  "updateExistingAirdrop plainEnv 9 sampleRecord sampleCandidate
     = Inr (sampleRecord\<lparr>metadata := (metadata sampleRecord)\<lparr>lastVerified := 9\<rparr>,
                         updatedAt := Some 9\<rparr>)
   \<and> lastVerified (metadata sampleRecord) = 0
   \<and> updatedAt sampleRecord = Some 0
   \<and> c_description sampleCandidate = None \<and> c_website sampleCandidate = None
   \<and> c_endDate sampleCandidate = None \<and> c_totalValue sampleCandidate = None"
  by code_simp

lemma rich_merge:
  "\<not> isl (updateExistingAirdrop plainEnv 9 (sampleRecord\<lparr>status := Ended\<rparr>) richCandidate)"
  "sourceUrl richCandidate \<notin> set (map url (sources (sampleRecord\<lparr>status := Ended\<rparr>)))"
  "truthy (c_description richCandidate)" "\<not> truthy (c_endDate richCandidate)"
  "c_description richCandidate \<noteq> Some (description (sampleRecord\<lparr>status := Ended\<rparr>))"
  "status (sampleRecord\<lparr>status := Ended\<rparr>) = Ended"
  "c_status richCandidate = Some Active"
  "length (sources (sampleRecord\<lparr>status := Ended\<rparr>)) = 1"
  "tags (sampleRecord\<lparr>status := Ended\<rparr>) \<noteq> []"
  by code_simp+

text \<open>
  C5, amended. A merge that is saved overwrites \<open>description\<close>, \<open>website\<close>, \<open>endDate\<close>
  and \<open>totalValue\<close>, each only when the value of the candidate is present, not empty and
  different from the stored one, and never with an absent or empty value; it appends one
  source entry when the URL of the candidate is not yet among the sources and none
  otherwise, so the old sources stay, unchanged, at the front of the list; it leaves
  \<open>status\<close> as it was. Besides these it sets \<open>metadata.lastVerified\<close> to the time of
  the merge, and the save sets \<open>updatedAt\<close> to that time when the merge changed
  anything, fills \<open>tags\<close> when the record has none, and advances the version key when
  the store library so decides; every other path of the record is unchanged.
\<close>

theorem updateExistingAirdrop_merge:
  "updateExistingAirdrop e now d c = Inr d' \<longrightarrow>
     description d' = (if truthy (c_description c) \<and> c_description c \<noteq> Some (description d)
                       then the (c_description c) else description d)
     \<and> website d' = (if truthy (c_website c) \<and> c_website c \<noteq> website d
                      then map_option trim (c_website c) else website d)
     \<and> endDate d' = (if truthy (c_endDate c) \<and> parseDate e (the (c_endDate c)) \<noteq> endDate d
                      then parseDate e (the (c_endDate c)) else endDate d)
     \<and> totalValue d' = (if truthy (c_totalValue c) \<and> c_totalValue c \<noteq> totalValue d
                         then c_totalValue c else totalValue d)
     \<and> sources d' = (if sourceUrl c \<in> set (map url (sources d)) then sources d
                      else sources d @ [sourceEntry now c])
     \<and> length (sources d) \<le> length (sources d')
     \<and> take (length (sources d)) (sources d') = sources d
     \<and> status d' = status d
     \<and> tags d' = (if tags d = []
                   then map toLowerCase (generateAutoTags e (d\<lparr>totalValue := totalValue d'\<rparr>))
                   else tags d)
     \<and> updatedAt d' =
         (if description d' \<noteq> description d \<or> website d' \<noteq> website d
             \<or> endDate d' \<noteq> endDate d \<or> totalValue d' \<noteq> totalValue d
             \<or> sources d' \<noteq> sources d \<or> lastVerified (metadata d) \<noteq> now
          then Some now else updatedAt d)
     \<and> version d' = (if bumpsVersion e d (d'\<lparr>version := version d\<rparr>) then version d + 1
                      else version d)
     \<and> d' = d\<lparr>description := description d', website := website d', endDate := endDate d',
                totalValue := totalValue d', sources := sources d', tags := tags d',
                metadata := (metadata d)\<lparr>lastVerified := now\<rparr>,
                updatedAt := updatedAt d', version := version d'\<rparr>"
proof
  assume a: "updateExistingAirdrop e now d c = Inr d'"
  note f = updateExistingAirdrop_fields[OF a]
  have st: "status d' = status d"
    by (subst f(7)) simp
  have len: "length (sources d) \<le> length (sources d')"
    and pre: "take (length (sources d)) (sources d') = sources d"
    by (simp_all add: f(5))
  from f(1-5) len pre st f(6) f(8) f(9) f(7)
  show "description d' = (if truthy (c_description c) \<and> c_description c \<noteq> Some (description d)
                       then the (c_description c) else description d)
     \<and> website d' = (if truthy (c_website c) \<and> c_website c \<noteq> website d
                      then map_option trim (c_website c) else website d)
     \<and> endDate d' = (if truthy (c_endDate c) \<and> parseDate e (the (c_endDate c)) \<noteq> endDate d
                      then parseDate e (the (c_endDate c)) else endDate d)
     \<and> totalValue d' = (if truthy (c_totalValue c) \<and> c_totalValue c \<noteq> totalValue d
                         then c_totalValue c else totalValue d)
     \<and> sources d' = (if sourceUrl c \<in> set (map url (sources d)) then sources d
                      else sources d @ [sourceEntry now c])
     \<and> length (sources d) \<le> length (sources d')
     \<and> take (length (sources d)) (sources d') = sources d
     \<and> status d' = status d
     \<and> tags d' = (if tags d = []
                   then map toLowerCase (generateAutoTags e (d\<lparr>totalValue := totalValue d'\<rparr>))
                   else tags d)
     \<and> updatedAt d' =
         (if description d' \<noteq> description d \<or> website d' \<noteq> website d
             \<or> endDate d' \<noteq> endDate d \<or> totalValue d' \<noteq> totalValue d
             \<or> sources d' \<noteq> sources d \<or> lastVerified (metadata d) \<noteq> now
          then Some now else updatedAt d)
     \<and> version d' = (if bumpsVersion e d (d'\<lparr>version := version d\<rparr>) then version d + 1
                      else version d)
     \<and> d' = d\<lparr>description := description d', website := website d', endDate := endDate d',
                totalValue := totalValue d', sources := sources d', tags := tags d',
                metadata := (metadata d)\<lparr>lastVerified := now\<rparr>,
                updatedAt := updatedAt d', version := version d'\<rparr>"
    by (intro conjI)
qed

theorem updateExistingAirdrop_merge_witness:
  "updateExistingAirdrop plainEnv 9 (sampleRecord\<lparr>status := Ended\<rparr>) richCandidate
     = Inr (projr (updateExistingAirdrop plainEnv 9 (sampleRecord\<lparr>status := Ended\<rparr>) richCandidate))
   \<and> c_status richCandidate = Some Active
   \<and> status (projr (updateExistingAirdrop plainEnv 9 (sampleRecord\<lparr>status := Ended\<rparr>) richCandidate))
       = Ended
   \<and> description (projr (updateExistingAirdrop plainEnv 9 (sampleRecord\<lparr>status := Ended\<rparr>) richCandidate))
       = the (c_description richCandidate)
   \<and> endDate (projr (updateExistingAirdrop plainEnv 9 (sampleRecord\<lparr>status := Ended\<rparr>) richCandidate))
       = endDate (sampleRecord\<lparr>status := Ended\<rparr>)
   \<and> length (sources (projr (updateExistingAirdrop plainEnv 9 (sampleRecord\<lparr>status := Ended\<rparr>)
                                   richCandidate))) = 2
   \<and> tags (projr (updateExistingAirdrop plainEnv 9 (sampleRecord\<lparr>status := Ended\<rparr>) richCandidate))
       = tags (sampleRecord\<lparr>status := Ended\<rparr>)
   \<and> updatedAt (projr (updateExistingAirdrop plainEnv 9 (sampleRecord\<lparr>status := Ended\<rparr>)
                           richCandidate)) = Some 9"
proof -
  let ?d = "sampleRecord\<lparr>status := Ended\<rparr>"
  let ?d' = "projr (updateExistingAirdrop plainEnv 9 ?d richCandidate)"
  have r: "updateExistingAirdrop plainEnv 9 ?d richCandidate = Inr ?d'"
    using rich_merge(1) by simp
  note w = updateExistingAirdrop_merge[where e = plainEnv and now = 9 and d = ?d
      and c = richCandidate and d' = ?d', rule_format, OF r]
  have "status ?d' = Ended" using w rich_merge(6) by simp
  moreover have "description ?d' = the (c_description richCandidate)"
    using w rich_merge(3,5) by simp
  moreover have "endDate ?d' = endDate ?d"
    using w rich_merge(4) by simp
  moreover have "length (sources ?d') = 2"
    using w rich_merge(2,8) by simp
  moreover have "tags ?d' = tags ?d"
    using w rich_merge(9) by simp
  moreover have "description ?d' \<noteq> description ?d"
    using w rich_merge(3,5) by (auto simp: truthy_def split: option.splits)
  then have "updatedAt ?d' = Some 9"
    using w by simp
  ultimately show ?thesis using r rich_merge(7) by blast
qed

section \<open>The maintenance pass\<close>

lemma length_updateExistingAirdrops: "length (updateExistingAirdrops e probe now db) = length db"
  by (simp add: updateExistingAirdrops_def updateMany_def)

lemma nth_updateExistingAirdrops:
  "i < length db \<Longrightarrow>
   updateExistingAirdrops e probe now db ! i =
     checkLiveness e probe now
       (if expired now (db ! i) then stamp now (markEnded (db ! i)) else db ! i)"
  by (simp add: updateExistingAirdrops_def updateMany_def)

lemma checkLiveness_ended: "status d = Ended \<Longrightarrow> checkLiveness e probe now d = d"
  by (simp add: checkLiveness_def)

lemma expired_not_ended: "status d = Ended \<Longrightarrow> \<not> expired now d"
  by (simp add: expired_def)

lemma expired_iff:
  "expired now d \<longleftrightarrow>
     (status d = Active \<or> status d = Upcoming)
     \<and> ((\<exists>t. endDate d = Some t \<and> t < now) \<or> (\<exists>t. claimDeadline d = Some t \<and> t < now))"
  by (auto simp: expired_def pastDate_def split: option.splits)

lemma pass_keeps_ended:
  "i < length db \<Longrightarrow> status (db ! i) = Ended \<Longrightarrow> updateExistingAirdrops e probe now db ! i = db ! i"
  by (simp add: nth_updateExistingAirdrops expired_not_ended checkLiveness_ended)

lemma pass_ends_expired:
  "i < length db \<Longrightarrow> expired now (db ! i) \<Longrightarrow>
   status (updateExistingAirdrops e probe now db ! i) = Ended"
  by (simp add: nth_updateExistingAirdrops checkLiveness_ended markEnded_def)

text \<open>
  C6. The maintenance pass (\<open>updateExistingAirdrops\<close>) keeps every record in its
  place. A record that is \<open>active\<close> or \<open>upcoming\<close> and whose \<open>endDate\<close> or
  \<open>claimDeadline\<close> lies before the time of the pass is \<open>ended\<close> after it. A record
  that is already \<open>ended\<close> comes out of the pass unchanged in every field; so a second
  pass, at any later time and whatever the chain answers, leaves a record that the first
  pass ended exactly as the first pass left it.
\<close>

theorem maintenance_expires:
  "length (updateExistingAirdrops e probe now db) = length db
   \<and> (\<forall>i<length db.
        ((status (db ! i) = Active \<or> status (db ! i) = Upcoming)
         \<and> ((\<exists>t. endDate (db ! i) = Some t \<and> t < now)
            \<or> (\<exists>t. claimDeadline (db ! i) = Some t \<and> t < now))
         \<longrightarrow> status (updateExistingAirdrops e probe now db ! i) = Ended)
        \<and> (status (db ! i) = Ended \<longrightarrow> updateExistingAirdrops e probe now db ! i = db ! i)
        \<and> (status (updateExistingAirdrops e probe now db ! i) = Ended \<longrightarrow>
             updateExistingAirdrops e2 probe2 now2 (updateExistingAirdrops e probe now db) ! i
               = updateExistingAirdrops e probe now db ! i))"
proof (intro conjI allI impI)
  show "length (updateExistingAirdrops e probe now db) = length db"
    by (rule length_updateExistingAirdrops)
next
  fix i assume i: "i < length db"
    and x: "(status (db ! i) = Active \<or> status (db ! i) = Upcoming)
         \<and> ((\<exists>t. endDate (db ! i) = Some t \<and> t < now)
            \<or> (\<exists>t. claimDeadline (db ! i) = Some t \<and> t < now))"
  from x have "expired now (db ! i)" by (simp only: expired_iff)
  with i show "status (updateExistingAirdrops e probe now db ! i) = Ended"
    by (rule pass_ends_expired)
next
  fix i assume "i < length db" "status (db ! i) = Ended"
  then show "updateExistingAirdrops e probe now db ! i = db ! i"
    by (rule pass_keeps_ended)
next
  fix i assume i: "i < length db"
    and s: "status (updateExistingAirdrops e probe now db ! i) = Ended"
  from i have "i < length (updateExistingAirdrops e probe now db)"
    by (simp add: length_updateExistingAirdrops)
  from pass_keeps_ended[OF this s]
  show "updateExistingAirdrops e2 probe2 now2 (updateExistingAirdrops e probe now db) ! i
               = updateExistingAirdrops e probe now db ! i" .
qed

lemma sample_expiry:
  "status (sampleRecord\<lparr>endDate := Some 5\<rparr>) = Active"
  "endDate (sampleRecord\<lparr>endDate := Some 5\<rparr>) = Some 5"
  "status (sampleRecord\<lparr>status := Ended\<rparr>) = Ended"
  by (simp_all add: sampleRecord_def)

theorem maintenance_expires_witness:
  "(0::nat) < length [sampleRecord\<lparr>endDate := Some 5\<rparr>]
   \<and> status ([sampleRecord\<lparr>endDate := Some 5\<rparr>] ! 0) = Active
   \<and> endDate ([sampleRecord\<lparr>endDate := Some 5\<rparr>] ! 0) = Some 5 \<and> (5::int) < 9
   \<and> status (updateExistingAirdrops plainEnv deadProbe 9 [sampleRecord\<lparr>endDate := Some 5\<rparr>] ! 0) = Ended
   \<and> updateExistingAirdrops plainEnv deadProbe 10
        (updateExistingAirdrops plainEnv deadProbe 9 [sampleRecord\<lparr>endDate := Some 5\<rparr>]) ! 0
       = updateExistingAirdrops plainEnv deadProbe 9 [sampleRecord\<lparr>endDate := Some 5\<rparr>] ! 0
   \<and> updateExistingAirdrops plainEnv deadProbe 9 [sampleRecord\<lparr>status := Ended\<rparr>] ! 0
       = sampleRecord\<lparr>status := Ended\<rparr>"
  using maintenance_expires[of plainEnv deadProbe 9 "[sampleRecord\<lparr>endDate := Some 5\<rparr>]" plainEnv deadProbe 10]
    maintenance_expires[of plainEnv deadProbe 9 "[sampleRecord\<lparr>status := Ended\<rparr>]" plainEnv deadProbe 10]
    sample_expiry
  by simp

section \<open>The contract probe and the event-driven path\<close>

lemma baseInfo_flags:
  "\<not> p_isValid (baseInfo a b)" "\<not> p_isToken (baseInfo a b)" "\<not> p_verified (baseInfo a b)"
  by (simp_all add: baseInfo_def)

lemma hasContractCode_iff:
  "hasContractCode c \<longleftrightarrow> providerKnown c \<and> \<not> isl (getCode c) \<and> getCode c \<noteq> Inr ''0x''"
  by (auto simp: hasContractCode_def split: sum.splits)

lemma verifyContract_invalid:
  "\<not> isValidAddress c \<or> \<not> hasContractCode c \<Longrightarrow> verifyContract c a b = baseInfo a b"
  by (auto simp: verifyContract_def)

lemma verifyContract_valid:
  assumes "isValidAddress c" "hasContractCode c"
  shows "p_isValid (verifyContract c a b)"
    and "p_verified (verifyContract c a b) \<longleftrightarrow> getExplorerInfo c = Some True"
    and "p_isToken (verifyContract c a b) \<longleftrightarrow> getTokenInfo c \<noteq> None"
    and "p_name (verifyContract c a b) = map_option t_name (getTokenInfo c)"
    and "p_symbol (verifyContract c a b) = map_option t_symbol (getTokenInfo c)"
    and "p_isAirdropContract (verifyContract c a b) = Some (fst (checkAirdropFunctions c))"
    and "p_hasClaimFunction (verifyContract c a b) = Some (snd (checkAirdropFunctions c))"
    and "p_owner (verifyContract c a b) = getContractOwner c"
    and "p_lastActivity (verifyContract c a b) = getLastActivity c"
  using assms
  by (auto simp: verifyContract_def Let_def baseInfo_def split: option.splits)

lemma getExplorerInfo_iff:
  "getExplorerInfo c = Some True \<longleftrightarrow>
     explorerKey c \<and> (\<exists>src. sourceCode c = Inr (Some src) \<and> src \<noteq> [])"
  by (auto simp: getExplorerInfo_def split: sum.splits option.splits)

lemma getTokenInfo_eq:
  "providerKnown c \<Longrightarrow>
   getTokenInfo c =
     (if isl (tokenName c) \<or> isl (tokenSymbol c) then None
      else Some \<lparr>t_name = projr (tokenName c), t_symbol = projr (tokenSymbol c),
                 t_decimals = (case tokenDecimals c of Inr k \<Rightarrow> k | Inl _ \<Rightarrow> 18),
                 t_totalSupply = (case tokenTotalSupply c of Inr v \<Rightarrow> v | Inl _ \<Rightarrow> ''0'')\<rparr>)"
  by (auto simp: getTokenInfo_def split: sum.splits)

lemma getContractOwner_eq:
  "providerKnown c \<Longrightarrow>
   getContractOwner c =
     (if \<not> isl (ownerCall c) then Some (projr (ownerCall c))
      else if \<not> isl (getOwnerCall c) then Some (projr (getOwnerCall c))
      else None)"
  by (auto simp: getContractOwner_def split: sum.splits)

lemma getLastActivity_eq:
  "getLastActivity c = (if explorerKey c \<and> \<not> isl (txlist c) then projr (txlist c) else None)"
  by (auto simp: getLastActivity_def split: sum.splits)

lemma length_createNewVerifiedAirdrop:
  "length (snd (createNewVerifiedAirdrop e now c db)) =
     (if fst (createNewVerifiedAirdrop e now c db) = None then length db else length db + 1)"
  by (auto simp: createNewVerifiedAirdrop_def saveNew_def Let_def split: sum.splits option.splits)

lemma processDetectedAirdrop_invalid:
  assumes "\<not> p_isValid (probe (ev_contractAddress ev) (ev_blockchain ev))"
  shows "length (processDetectedAirdrop e probe now ev db) = length db"
    and "findIndex (\<lambda>d. contractAddress d = toLowerCase (ev_contractAddress ev)) db = None
         \<Longrightarrow> processDetectedAirdrop e probe now ev db = db"
  using assms by (auto simp: processDetectedAirdrop_def Let_def split: option.splits sum.splits)

text \<open>
  C8, as stated, fails: a failing sub-check does not make the result invalid. The
  address holds code and the explorer lists its source, but the node fails the call of
  \<open>name()\<close>. \<open>getTokenInfo\<close> answers null, and \<open>verifyContract\<close> returns a result with
  \<open>isValid\<close> true, \<open>isToken\<close> false and \<open>verified\<close> true.
\<close>

theorem failing_token_call_counterexample:
  "isl (tokenName namelessReads)
   \<and> getTokenInfo namelessReads = None
   \<and> p_isValid (verifyContract namelessReads sampleAddress ''ethereum'')
   \<and> \<not> p_isToken (verifyContract namelessReads sampleAddress ''ethereum'')
   \<and> p_verified (verifyContract namelessReads sampleAddress ''ethereum'')"
  by code_simp

text \<open>
  C8, amended. \<open>verifyContract\<close> returns a result for every address, every blockchain
  and every answer of the chain: it is a total function, and none of its steps can pass
  an error on. The result is invalid exactly when the address is malformed, no provider
  is known for the blockchain, or reading the code fails or finds no bytecode (\<open>0x\<close>);
  it is then the initial result, with \<open>isValid\<close>, \<open>isToken\<close> and \<open>verified\<close> all
  false. Once code is found the result is valid whatever the later checks do: a check
  that fails leaves its part of the result at the default (\<open>verified\<close> false, not a
  token and no name or symbol, no owner, no last activity) and the checks after it still
  run. The event-driven path creates no record from an invalid probe result: the
  collection keeps its length, and when no record is stored under the address of the
  event the collection is unchanged. In particular an event for an address without
  bytecode creates no record.
\<close>

theorem verifyContract_degrades:
  "(p_isValid (verifyContract c a b) \<longleftrightarrow>
      isValidAddress c \<and> providerKnown c \<and> \<not> isl (getCode c) \<and> getCode c \<noteq> Inr ''0x'')
   \<and> (\<not> p_isValid (verifyContract c a b) \<longrightarrow>
        verifyContract c a b = baseInfo a b
        \<and> \<not> p_isToken (verifyContract c a b) \<and> \<not> p_verified (verifyContract c a b))
   \<and> (p_isValid (verifyContract c a b) \<longrightarrow>
        (p_verified (verifyContract c a b) \<longleftrightarrow>
           explorerKey c \<and> (\<exists>src. sourceCode c = Inr (Some src) \<and> src \<noteq> []))
        \<and> (p_isToken (verifyContract c a b) \<longleftrightarrow> \<not> isl (tokenName c) \<and> \<not> isl (tokenSymbol c))
        \<and> p_name (verifyContract c a b) =
            (if isl (tokenName c) \<or> isl (tokenSymbol c) then None
             else Some (projr (tokenName c)))
        \<and> p_symbol (verifyContract c a b) =
            (if isl (tokenName c) \<or> isl (tokenSymbol c) then None
             else Some (projr (tokenSymbol c)))
        \<and> p_isAirdropContract (verifyContract c a b) =
            Some (\<exists>m \<in> set [''isClaimed'', ''canClaim'']. getFunction c m = Inr True)
        \<and> p_hasClaimFunction (verifyContract c a b) =
            Some (\<exists>m \<in> set [''claim'', ''claimTokens'', ''claimAirdrop'']. getFunction c m = Inr True)
        \<and> p_owner (verifyContract c a b) =
            (if \<not> isl (ownerCall c) then Some (projr (ownerCall c))
             else if \<not> isl (getOwnerCall c) then Some (projr (getOwnerCall c))
             else None)
        \<and> p_lastActivity (verifyContract c a b) =
            (if explorerKey c \<and> \<not> isl (txlist c) then projr (txlist c) else None))
   \<and> (\<not> p_isValid (probe (ev_contractAddress ev) (ev_blockchain ev)) \<longrightarrow>
        length (processDetectedAirdrop e probe now ev db) = length db
        \<and> (findIndex (\<lambda>d. contractAddress d = toLowerCase (ev_contractAddress ev)) db = None
           \<longrightarrow> processDetectedAirdrop e probe now ev db = db))
   \<and> (getCode (reads (ev_contractAddress ev) (ev_blockchain ev)) = Inr ''0x'' \<longrightarrow>
        length (processDetectedAirdrop e (chainProbe reads) now ev db) = length db)"
proof -
  let ?ok = "isValidAddress c \<and> hasContractCode c"
  have valid: "p_isValid (verifyContract c a b) \<longleftrightarrow> ?ok"
    using verifyContract_valid(1)[of c a b] verifyContract_invalid[of c a b] baseInfo_flags(1)[of a b]
    by metis
  have one: "p_isValid (verifyContract c a b) \<longleftrightarrow>
      isValidAddress c \<and> providerKnown c \<and> \<not> isl (getCode c) \<and> getCode c \<noteq> Inr ''0x''"
    unfolding valid hasContractCode_iff by blast
  have two: "\<not> p_isValid (verifyContract c a b) \<longrightarrow>
        verifyContract c a b = baseInfo a b
        \<and> \<not> p_isToken (verifyContract c a b) \<and> \<not> p_verified (verifyContract c a b)"
  proof
    assume "\<not> p_isValid (verifyContract c a b)"
    then have "\<not> isValidAddress c \<or> \<not> hasContractCode c" by (simp only: valid) blast
    then have "verifyContract c a b = baseInfo a b" by (rule verifyContract_invalid)
    then show "verifyContract c a b = baseInfo a b
        \<and> \<not> p_isToken (verifyContract c a b) \<and> \<not> p_verified (verifyContract c a b)"
      by (simp add: baseInfo_flags)
  qed
  have three: "p_isValid (verifyContract c a b) \<longrightarrow>
        (p_verified (verifyContract c a b) \<longleftrightarrow>
           explorerKey c \<and> (\<exists>src. sourceCode c = Inr (Some src) \<and> src \<noteq> []))
        \<and> (p_isToken (verifyContract c a b) \<longleftrightarrow> \<not> isl (tokenName c) \<and> \<not> isl (tokenSymbol c))
        \<and> p_name (verifyContract c a b) =
            (if isl (tokenName c) \<or> isl (tokenSymbol c) then None
             else Some (projr (tokenName c)))
        \<and> p_symbol (verifyContract c a b) =
            (if isl (tokenName c) \<or> isl (tokenSymbol c) then None
             else Some (projr (tokenSymbol c)))
        \<and> p_isAirdropContract (verifyContract c a b) =
            Some (\<exists>m \<in> set [''isClaimed'', ''canClaim'']. getFunction c m = Inr True)
        \<and> p_hasClaimFunction (verifyContract c a b) =
            Some (\<exists>m \<in> set [''claim'', ''claimTokens'', ''claimAirdrop'']. getFunction c m = Inr True)
        \<and> p_owner (verifyContract c a b) =
            (if \<not> isl (ownerCall c) then Some (projr (ownerCall c))
             else if \<not> isl (getOwnerCall c) then Some (projr (getOwnerCall c))
             else None)
        \<and> p_lastActivity (verifyContract c a b) =
            (if explorerKey c \<and> \<not> isl (txlist c) then projr (txlist c) else None)"
  proof
    assume "p_isValid (verifyContract c a b)"
    then have ok: "isValidAddress c" "hasContractCode c" by (simp_all only: valid)
    then have pk: "providerKnown c" by (simp add: hasContractCode_iff)
    note v = verifyContract_valid[OF ok, of a b]
    have "p_verified (verifyContract c a b) \<longleftrightarrow>
           explorerKey c \<and> (\<exists>src. sourceCode c = Inr (Some src) \<and> src \<noteq> [])"
      by (simp only: v(2) getExplorerInfo_iff)
    moreover have "p_isToken (verifyContract c a b) \<longleftrightarrow> \<not> isl (tokenName c) \<and> \<not> isl (tokenSymbol c)"
      by (simp add: v(3) getTokenInfo_eq[OF pk])
    moreover have "p_name (verifyContract c a b) =
            (if isl (tokenName c) \<or> isl (tokenSymbol c) then None
             else Some (projr (tokenName c)))"
      by (simp add: v(4) getTokenInfo_eq[OF pk])
    moreover have "p_symbol (verifyContract c a b) =
            (if isl (tokenName c) \<or> isl (tokenSymbol c) then None
             else Some (projr (tokenSymbol c)))"
      by (simp add: v(5) getTokenInfo_eq[OF pk])
    moreover have "p_isAirdropContract (verifyContract c a b) =
            Some (\<exists>m \<in> set [''isClaimed'', ''canClaim'']. getFunction c m = Inr True)"
      by (simp only: v(6) checkAirdropFunctions_def anyFunction_def pk not_True_eq_False if_False
          fst_conv)
    moreover have "p_hasClaimFunction (verifyContract c a b) =
            Some (\<exists>m \<in> set [''claim'', ''claimTokens'', ''claimAirdrop'']. getFunction c m = Inr True)"
      by (simp only: v(7) checkAirdropFunctions_def anyFunction_def pk not_True_eq_False if_False
          snd_conv)
    moreover have "p_owner (verifyContract c a b) =
            (if \<not> isl (ownerCall c) then Some (projr (ownerCall c))
             else if \<not> isl (getOwnerCall c) then Some (projr (getOwnerCall c))
             else None)"
      by (simp only: v(8) getContractOwner_eq[OF pk])
    moreover have "p_lastActivity (verifyContract c a b) =
            (if explorerKey c \<and> \<not> isl (txlist c) then projr (txlist c) else None)"
      by (simp only: v(9) getLastActivity_eq)
    ultimately show "(p_verified (verifyContract c a b) \<longleftrightarrow>
           explorerKey c \<and> (\<exists>src. sourceCode c = Inr (Some src) \<and> src \<noteq> []))
        \<and> (p_isToken (verifyContract c a b) \<longleftrightarrow> \<not> isl (tokenName c) \<and> \<not> isl (tokenSymbol c))
        \<and> p_name (verifyContract c a b) =
            (if isl (tokenName c) \<or> isl (tokenSymbol c) then None
             else Some (projr (tokenName c)))
        \<and> p_symbol (verifyContract c a b) =
            (if isl (tokenName c) \<or> isl (tokenSymbol c) then None
             else Some (projr (tokenSymbol c)))
        \<and> p_isAirdropContract (verifyContract c a b) =
            Some (\<exists>m \<in> set [''isClaimed'', ''canClaim'']. getFunction c m = Inr True)
        \<and> p_hasClaimFunction (verifyContract c a b) =
            Some (\<exists>m \<in> set [''claim'', ''claimTokens'', ''claimAirdrop'']. getFunction c m = Inr True)
        \<and> p_owner (verifyContract c a b) =
            (if \<not> isl (ownerCall c) then Some (projr (ownerCall c))
             else if \<not> isl (getOwnerCall c) then Some (projr (getOwnerCall c))
             else None)
        \<and> p_lastActivity (verifyContract c a b) =
            (if explorerKey c \<and> \<not> isl (txlist c) then projr (txlist c) else None)"
      by (intro conjI)
  qed
  have four: "\<not> p_isValid (probe (ev_contractAddress ev) (ev_blockchain ev)) \<longrightarrow>
        length (processDetectedAirdrop e probe now ev db) = length db
        \<and> (findIndex (\<lambda>d. contractAddress d = toLowerCase (ev_contractAddress ev)) db = None
           \<longrightarrow> processDetectedAirdrop e probe now ev db = db)"
    using processDetectedAirdrop_invalid[where probe=probe and ev=ev and e=e and now=now and db=db] by blast
  have five: "getCode (reads (ev_contractAddress ev) (ev_blockchain ev)) = Inr ''0x'' \<longrightarrow>
        length (processDetectedAirdrop e (chainProbe reads) now ev db) = length db"
  proof
    assume "getCode (reads (ev_contractAddress ev) (ev_blockchain ev)) = Inr ''0x''"
    then have "\<not> hasContractCode (reads (ev_contractAddress ev) (ev_blockchain ev))"
      by (simp add: hasContractCode_iff)
    then have "\<not> p_isValid (chainProbe reads (ev_contractAddress ev) (ev_blockchain ev))"
      by (simp add: chainProbe_def verifyContract_invalid baseInfo_flags)
    then show "length (processDetectedAirdrop e (chainProbe reads) now ev db) = length db"
      by (rule processDetectedAirdrop_invalid(1))
  qed
  from one two three four five show ?thesis by (intro conjI)
qed

lemma sample_event_unknown:
  "findIndex (\<lambda>d. contractAddress d = toLowerCase (ev_contractAddress sampleEvent)) [sampleRecord] = None"
  by code_simp

lemma codeless_read:
  "getCode codelessReads = Inr ''0x''" "explorerKey codelessReads"
  "sourceCode codelessReads = Inr (Some ''contract Foo {}'')"
  "isValidAddress codelessReads" "providerKnown codelessReads"
  by (simp_all add: codelessReads_def tokenReads_def)

lemma failing_read:
  "isValidAddress failingReads" "providerKnown failingReads" "explorerKey failingReads"
  "getCode failingReads = Inr ''0x6080''"
  "isl (sourceCode failingReads)" "isl (tokenSymbol failingReads)"
  "isl (ownerCall failingReads)" "isl (getOwnerCall failingReads)" "isl (txlist failingReads)"
  by (simp_all add: failingReads_def tokenReads_def)

theorem verifyContract_degrades_witness:
  "getCode codelessReads = Inr ''0x''
   \<and> explorerKey codelessReads \<and> sourceCode codelessReads = Inr (Some ''contract Foo {}'')
   \<and> \<not> p_isValid (verifyContract codelessReads sampleAddress ''ethereum'')
   \<and> \<not> p_isToken (verifyContract codelessReads sampleAddress ''ethereum'')
   \<and> \<not> p_verified (verifyContract codelessReads sampleAddress ''ethereum'')
   \<and> isl (sourceCode failingReads) \<and> isl (tokenSymbol failingReads)
   \<and> isl (ownerCall failingReads) \<and> isl (getOwnerCall failingReads) \<and> isl (txlist failingReads)
   \<and> p_isValid (verifyContract failingReads sampleAddress ''ethereum'')
   \<and> \<not> p_verified (verifyContract failingReads sampleAddress ''ethereum'')
   \<and> \<not> p_isToken (verifyContract failingReads sampleAddress ''ethereum'')
   \<and> p_name (verifyContract failingReads sampleAddress ''ethereum'') = None
   \<and> p_owner (verifyContract failingReads sampleAddress ''ethereum'') = None
   \<and> p_lastActivity (verifyContract failingReads sampleAddress ''ethereum'') = None
   \<and> \<not> p_isValid (deadProbe (ev_contractAddress sampleEvent) (ev_blockchain sampleEvent))
   \<and> findIndex (\<lambda>d. contractAddress d = toLowerCase (ev_contractAddress sampleEvent)) [sampleRecord] = None
   \<and> processDetectedAirdrop plainEnv deadProbe 9 sampleEvent [sampleRecord] = [sampleRecord]
   \<and> length (processDetectedAirdrop plainEnv (chainProbe (\<lambda>a b. codelessReads)) 9 sampleEvent
                [sampleRecord]) = 1"
proof -
  note w1 = verifyContract_degrades[where c=codelessReads and a=sampleAddress and b="''ethereum''"
          and probe=deadProbe and ev=sampleEvent and e=plainEnv and now=9 and db="[sampleRecord]"
          and reads="\<lambda>a b. codelessReads"]
  note w2 = verifyContract_degrades[where c=failingReads and a=sampleAddress and b="''ethereum''"
          and probe=deadProbe and ev=sampleEvent and e=plainEnv and now=9 and db="[sampleRecord]"
          and reads="\<lambda>a b. codelessReads"]
  have dead: "\<not> p_isValid (deadProbe (ev_contractAddress sampleEvent) (ev_blockchain sampleEvent))"
    by (simp add: deadProbe_def baseInfo_flags)
  have a: "\<not> p_isValid (verifyContract codelessReads sampleAddress ''ethereum'')"
    using w1 codeless_read(1) by blast
  then have a2: "\<not> p_isToken (verifyContract codelessReads sampleAddress ''ethereum'')"
    "\<not> p_verified (verifyContract codelessReads sampleAddress ''ethereum'')"
    using w1 by blast+
  have b: "p_isValid (verifyContract failingReads sampleAddress ''ethereum'')"
    using w2 failing_read(1,2,4) by simp
  have b2: "\<not> p_verified (verifyContract failingReads sampleAddress ''ethereum'')"
    "\<not> p_isToken (verifyContract failingReads sampleAddress ''ethereum'')"
    "p_name (verifyContract failingReads sampleAddress ''ethereum'') = None"
    "p_owner (verifyContract failingReads sampleAddress ''ethereum'') = None"
    "p_lastActivity (verifyContract failingReads sampleAddress ''ethereum'') = None"
    using w2 b failing_read(5-9) by auto
  have c: "processDetectedAirdrop plainEnv deadProbe 9 sampleEvent [sampleRecord] = [sampleRecord]"
    using w1 dead sample_event_unknown by blast
  have d: "length (processDetectedAirdrop plainEnv (chainProbe (\<lambda>a b. codelessReads)) 9 sampleEvent
                [sampleRecord]) = 1"
    using w1 codeless_read(1) by simp
  from codeless_read(1-3) a a2 failing_read(5-9) b b2 dead sample_event_unknown c d
  show ?thesis by (intro conjI)
qed

section \<open>Candidates without a contract address\<close>









































section \<open>The verification history\<close>

lemma historyKept_prefix:
  "prefix (map history db) (map history db') \<Longrightarrow> historyKept db db'"
proof -
  assume "prefix (map history db) (map history db')"
  then obtain zs where zs: "map history db' = map history db @ zs"
    by (auto simp: prefix_def)
  then have len: "length db \<le> length db'"
    by (metis length_map length_append le_add1)
  have "history (db' ! i) = history (db ! i)" if "i < length db" for i
  proof -
    have "map history db' ! i = map history db ! i"
      using that by (simp add: zs nth_append)
    then show ?thesis using that len by simp
  qed
  with len show ?thesis by (simp add: historyKept_def)
qed

lemma historyKept_same: "map history db' = map history db \<Longrightarrow> historyKept db db'"
  by (rule historyKept_prefix) simp

lemma history_simps:
  "history (setContractInfo info now d) = history d"
  "history (raiseToCommunity now d) = history d"
  "history (stamp now d) = history d"
  "history (markEnded d) = history d"
  "history (setLastVerified now d) = history d"
  "history (d\<lparr>status := st\<rparr>) = history d"
  "history (d\<lparr>version := n\<rparr>) = history d"
  "history (touchActivity ts now d) = history d"
  "history (addRiskWarningMem w f d) = history d"
  by (simp_all add: history_def setContractInfo_def raiseToCommunity_def markEnded_def
      setLastVerified_def touchActivity_def addRiskWarningMem_def Let_def)

lemma history_preSave:
  "history (preSave e now lm am d) =
     (if lm then history d @ [levelChangeEntry now (verificationLevel d)] else history d)"
  by (simp add: preSave_def history_def pushHistory_def setLastVerified_def Let_def
      levelChangeEntry_def)

lemma history_saveLoaded:
  "saveLoaded e now orig d = Inr s \<Longrightarrow>
   history s = (if verificationLevel d \<noteq> verificationLevel orig
                then history d @ [levelChangeEntry now (verificationLevel d)] else history d)"
  by (auto simp: saveLoaded_def history_preSave history_simps Let_def split: if_splits)

lemma level_simps:
  "verificationLevel (markEnded d) = verificationLevel d"
  "verificationLevel (touchActivity ts now d) = verificationLevel d"
  "verificationLevel (addRiskWarningMem w f d) = verificationLevel d"
  by (simp_all add: markEnded_def setLastVerified_def touchActivity_def addRiskWarningMem_def
      Let_def)

lemma history_verifyAndUpdateContract:
  "map history (verifyAndUpdateContract probe now a b db) = map history db"
  by (simp add: verifyAndUpdateContract_def Let_def map_updateOne_same history_simps)

lemma history_checkLiveness: "history (checkLiveness e probe now d) = history d"
proof -
  have "history s = history d" if "saveLoaded e now d (markEnded d) = Inr s" for s
    using history_saveLoaded[OF that] by (simp add: history_simps level_simps)
  then show ?thesis
    by (auto simp: checkLiveness_def split: sum.splits)
qed

lemma history_updateExistingAirdrops:
  "map history (updateExistingAirdrops e probe now db) = map history db"
  by (simp add: updateExistingAirdrops_def updateMany_def history_checkLiveness history_simps
      comp_def)

lemma history_updateAirdropStatus:
  "map history (updateAirdropStatus now a st db) = map history db"
  by (simp add: updateAirdropStatus_def map_updateOne_same history_simps)

lemma history_created:
  "prefix (map history db) (map history (snd (createNewVerifiedAirdrop e now c db)))"
  by (auto simp: createNewVerifiedAirdrop_def saveNew_def Let_def split: sum.splits option.splits)

lemma history_processDetectedAirdrop:
  "prefix (map history db) (map history (processDetectedAirdrop e probe now ev db))"
proof (cases "findIndex (\<lambda>d. contractAddress d = toLowerCase (ev_contractAddress ev)) db")
  case None
  then show ?thesis
    by (simp add: processDetectedAirdrop_def Let_def history_created)
next
  case (Some i)
  have "map history (db[i := s]) = map history db"
    if "saveLoaded e now (db ! i) (touchActivity (ev_timestamp ev) now (db ! i)) = Inr s" for s
  proof -
    have "history s = history (db ! i)"
      using history_saveLoaded[OF that] by (simp add: history_simps level_simps)
    then show ?thesis
      by (rule map_list_update_same)
  qed
  with Some show ?thesis
    by (auto simp: processDetectedAirdrop_def split: sum.splits)
qed

lemma history_updateExistingAirdrop:
  assumes "updateExistingAirdrop e now d c = Inr d'"
  shows "history d' = history d"
  by (subst updateExistingAirdrop_fields(7)[OF assms]) (simp add: history_def)

lemma history_verifyCandidateContract:
  "map history (fst (verifyCandidateContract probe now c st)) = map history (fst st)"
  by (simp add: verifyCandidateContract_def history_verifyAndUpdateContract split: option.splits)

lemma history_processAirdropData:
  assumes "processAirdropData e probe now c (db, r) = Inr (db', r')"
  shows "prefix (map history db) (map history db')"
proof (cases "findIndex (matchesCandidate c) db")
  case None
  obtain sv dbc where cr: "createNewVerifiedAirdrop e now c db = (sv, dbc)"
    by (cases "createNewVerifiedAirdrop e now c db") auto
  have p: "prefix (map history db) (map history dbc)"
    using history_created[of db e now c] cr by simp
  have "(db', r') = verifyCandidateContract probe now c (dbc, r)
        \<or> (db', r') = verifyCandidateContract probe now c
                         (dbc, r\<lparr>newAirdrops := newAirdrops r + 1\<rparr>)"
    using assms None cr by (auto simp: processAirdropData_def split: option.splits)
  then have "map history db' = map history dbc"
    using history_verifyCandidateContract[of probe now c "(dbc, r)"]
      history_verifyCandidateContract[of probe now c "(dbc, r\<lparr>newAirdrops := newAirdrops r + 1\<rparr>)"]
    by (metis fst_conv)
  with p show ?thesis by simp
next
  case (Some i)
  with assms obtain d where d: "updateExistingAirdrop e now (db ! i) c = Inr d"
    and eq: "(db', r') = verifyCandidateContract probe now c
                           (db[i := d], r\<lparr>updatedAirdrops := updatedAirdrops r + 1\<rparr>)"
    by (auto simp: processAirdropData_def split: sum.splits)
  have "map history db' = map history (db[i := d])"
    using history_verifyCandidateContract[of probe now c
            "(db[i := d], r\<lparr>updatedAirdrops := updatedAirdrops r + 1\<rparr>)"] eq
    by (metis fst_conv)
  also have "\<dots> = map history db"
    by (rule map_list_update_same) (rule history_updateExistingAirdrop[OF d])
  finally show ?thesis by simp
qed

lemma history_addRiskWarning: "history (fst (addRiskWarning e now w f d)) = history d"
proof (cases "saveLoaded e now d (addRiskWarningMem w f d)")
  case (Inl err)
  then show ?thesis by (simp add: addRiskWarning_def Let_def history_simps)
next
  case (Inr s)
  from history_saveLoaded[OF Inr] Inr show ?thesis
    by (simp add: addRiskWarning_def Let_def history_simps level_simps)
qed

lemma history_updateVerificationLevel:
  "\<exists>ext. history (fst (updateVerificationLevel e now lv who dets d)) =
     history d @ \<lparr>hdate = now,
                   action = ''Verification level changed from '' @ levelName (verificationLevel d)
                            @ '' to '' @ levelName lv,
                   actor = who, details = dets\<rparr> # ext"
proof -
  let ?entry = "\<lparr>hdate = now,
                   action = ''Verification level changed from '' @ levelName (verificationLevel d)
                            @ '' to '' @ levelName lv,
                   actor = who, details = dets\<rparr>"
  let ?m = "pushHistory ?entry (d\<lparr>verificationLevel := lv\<rparr>)"
  have hm: "history ?m = history d @ [?entry]"
    by (simp add: history_def pushHistory_def)
  show ?thesis
  proof (cases "saveLoaded e now d ?m")
    case (Inl err)
    then have "fst (updateVerificationLevel e now lv who dets d) = ?m"
      by (simp add: updateVerificationLevel_def Let_def)
    then show ?thesis using hm by simp
  next
    case (Inr s)
    then have "fst (updateVerificationLevel e now lv who dets d) = s"
      by (simp add: updateVerificationLevel_def Let_def)
    moreover from history_saveLoaded[OF Inr] hm
    have "\<exists>ext. history s = history d @ ?entry # ext"
      by (auto split: if_splits)
    ultimately show ?thesis by simp
  qed
qed

lemma cleanup_subseq: "subseq (cleanupObsoleteData now db) db"
  by (simp add: cleanupObsoleteData_def deleteMany_def)

text \<open>
  C7, as stated, fails: a status transition appends nothing. The maintenance pass ends an
  active record whose end date has passed, and the status update that follows a
  claim-opened event re-opens an ended record; the verification history of the record is
  the same before and after in both.
\<close>

theorem status_transition_unlogged_counterexample:
  "status ([sampleRecord\<lparr>endDate := Some 5\<rparr>] ! 0) = Active
   \<and> status (updateExistingAirdrops plainEnv deadProbe 9 [sampleRecord\<lparr>endDate := Some 5\<rparr>] ! 0) = Ended
   \<and> verificationHistory (metadata
         (updateExistingAirdrops plainEnv deadProbe 9 [sampleRecord\<lparr>endDate := Some 5\<rparr>] ! 0))
       = verificationHistory (metadata ([sampleRecord\<lparr>endDate := Some 5\<rparr>] ! 0))
   \<and> status ([sampleRecord\<lparr>status := Ended\<rparr>] ! 0) = Ended
   \<and> status (updateAirdropStatus 9 ''0xaaa'' Active [sampleRecord\<lparr>status := Ended\<rparr>] ! 0) = Active
   \<and> verificationHistory (metadata
         (updateAirdropStatus 9 ''0xaaa'' Active [sampleRecord\<lparr>status := Ended\<rparr>] ! 0))
       = verificationHistory (metadata ([sampleRecord\<lparr>status := Ended\<rparr>] ! 0))"
  by code_simp

text \<open>
  C7, amended. The verification history only grows. Contract enrichment, the event-driven
  path and the processing of a candidate keep every record in its place with its old
  history as a prefix of the new one; the maintenance pass and the status update, the
  operations that change \<open>status\<close>, leave every history exactly as it was; the
  retention sweep deletes whole records and keeps the others as they are; a merge and
  \<open>addRiskWarning\<close> leave the history of the record as it was. Entries are appended on
  the way through \<open>save\<close>: a save of a document whose \<open>verificationLevel\<close> was
  modified appends one entry with the date and the actor \<open>system\<close>, and
  \<open>updateVerificationLevel\<close> appends to the old history an entry with the date and the
  actor it was given.
\<close>

theorem verificationHistory_grows:
  "historyKept db (verifyAndUpdateContract probe now a b db)
   \<and> map history (updateExistingAirdrops e probe now db) = map history db
   \<and> map history (updateAirdropStatus now a st db) = map history db
   \<and> historyKept db (processDetectedAirdrop e probe now ev db)
   \<and> (processAirdropData e probe now c (db, r) = Inr (db', r') \<longrightarrow> historyKept db db')
   \<and> subseq (cleanupObsoleteData now db) db
   \<and> (updateExistingAirdrop e now d c = Inr d' \<longrightarrow> history d' = history d)
   \<and> (saveLoaded e now orig m = Inr s \<longrightarrow>
        history s = (if verificationLevel m \<noteq> verificationLevel orig
                     then history m @ [levelChangeEntry now (verificationLevel m)]
                     else history m))
   \<and> history (fst (addRiskWarning e now w f d)) = history d
   \<and> (\<exists>ext. history (fst (updateVerificationLevel e now lv who dets d)) =
          history d @ \<lparr>hdate = now,
                        action = ''Verification level changed from ''
                                 @ levelName (verificationLevel d) @ '' to '' @ levelName lv,
                        actor = who, details = dets\<rparr> # ext)"
proof (intro conjI impI)
  show "historyKept db (verifyAndUpdateContract probe now a b db)"
    by (rule historyKept_same) (rule history_verifyAndUpdateContract)
  show "map history (updateExistingAirdrops e probe now db) = map history db"
    by (rule history_updateExistingAirdrops)
  show "map history (updateAirdropStatus now a st db) = map history db"
    by (rule history_updateAirdropStatus)
  show "historyKept db (processDetectedAirdrop e probe now ev db)"
    by (rule historyKept_prefix) (rule history_processDetectedAirdrop)
  show "subseq (cleanupObsoleteData now db) db"
    by (rule cleanup_subseq)
  show "history (fst (addRiskWarning e now w f d)) = history d"
    by (rule history_addRiskWarning)
  show "\<exists>ext. history (fst (updateVerificationLevel e now lv who dets d)) =
          history d @ \<lparr>hdate = now,
                        action = ''Verification level changed from ''
                                 @ levelName (verificationLevel d) @ '' to '' @ levelName lv,
                        actor = who, details = dets\<rparr> # ext"
    by (rule history_updateVerificationLevel)
next
  assume "processAirdropData e probe now c (db, r) = Inr (db', r')"
  then show "historyKept db db'"
    by (intro historyKept_prefix history_processAirdropData)
next
  assume "updateExistingAirdrop e now d c = Inr d'"
  then show "history d' = history d"
    by (rule history_updateExistingAirdrop)
next
  assume "saveLoaded e now orig m = Inr s"
  then show "history s = (if verificationLevel m \<noteq> verificationLevel orig
                     then history m @ [levelChangeEntry now (verificationLevel m)]
                     else history m)"
    by (rule history_saveLoaded)
qed

lemma sample_saves:
  "\<not> isl (saveLoaded plainEnv 9 sampleRecord (sampleRecord\<lparr>verificationLevel := Official\<rparr>))"
  "\<not> isl (updateExistingAirdrop plainEnv 9 sampleRecord sampleCandidate)"
  "verificationLevel (sampleRecord\<lparr>verificationLevel := Official\<rparr>) \<noteq> verificationLevel sampleRecord"
  by code_simp+

theorem verificationHistory_grows_witness:
  "(0::nat) < length [sampleRecord]
   \<and> processAirdropData plainEnv deadProbe 9 sampleCandidate ([sampleRecord], emptyResult 9)
       = Inr (projr (processAirdropData plainEnv deadProbe 9 sampleCandidate
                       ([sampleRecord], emptyResult 9)))
   \<and> historyKept [sampleRecord]
        (fst (projr (processAirdropData plainEnv deadProbe 9 sampleCandidate
                       ([sampleRecord], emptyResult 9))))
   \<and> updateExistingAirdrop plainEnv 9 sampleRecord sampleCandidate
       = Inr (projr (updateExistingAirdrop plainEnv 9 sampleRecord sampleCandidate))
   \<and> history (projr (updateExistingAirdrop plainEnv 9 sampleRecord sampleCandidate))
       = history sampleRecord
   \<and> saveLoaded plainEnv 9 sampleRecord (sampleRecord\<lparr>verificationLevel := Official\<rparr>)
       = Inr (projr (saveLoaded plainEnv 9 sampleRecord (sampleRecord\<lparr>verificationLevel := Official\<rparr>)))
   \<and> history (projr (saveLoaded plainEnv 9 sampleRecord (sampleRecord\<lparr>verificationLevel := Official\<rparr>)))
       = history (sampleRecord\<lparr>verificationLevel := Official\<rparr>) @ [levelChangeEntry 9 Official]
   \<and> historyKept [sampleRecord]
        (verifyAndUpdateContract (\<lambda>a b. sampleInfo True True) 9 ''0xaaa'' None [sampleRecord])"
proof -
  let ?p = "processAirdropData plainEnv deadProbe 9 sampleCandidate ([sampleRecord], emptyResult 9)"
  let ?u = "updateExistingAirdrop plainEnv 9 sampleRecord sampleCandidate"
  let ?s = "saveLoaded plainEnv 9 sampleRecord (sampleRecord\<lparr>verificationLevel := Official\<rparr>)"
  have p: "?p = Inr (fst (projr ?p), snd (projr ?p))"
    using sample_process(1) by simp
  have u: "?u = Inr (projr ?u)" using sample_saves(2) by simp
  have s: "?s = Inr (projr ?s)" using sample_saves(1) by simp
  note t = verificationHistory_grows[where db="[sampleRecord]" and probe="\<lambda>a b. sampleInfo True True"
      and now=9 and a="''0xaaa''" and b=None and e=plainEnv and st=Active and ev=sampleEvent
      and c=sampleCandidate and r="emptyResult 9" and db'="fst (projr ?p)" and r'="snd (projr ?p)"
      and d=sampleRecord and d'="projr ?u" and orig=sampleRecord
      and m="sampleRecord\<lparr>verificationLevel := Official\<rparr>" and s="projr ?s"
      and w="''w''" and f=None and lv=Official and who="''admin''" and dets=None]
  note t2 = verificationHistory_grows[where db="[sampleRecord]" and probe=deadProbe
      and now=9 and a="''0xaaa''" and b=None and e=plainEnv and st=Active and ev=sampleEvent
      and c=sampleCandidate and r="emptyResult 9" and db'="fst (projr ?p)" and r'="snd (projr ?p)"
      and d=sampleRecord and d'="projr ?u" and orig=sampleRecord
      and m="sampleRecord\<lparr>verificationLevel := Official\<rparr>" and s="projr ?s"
      and w="''w''" and f=None and lv=Official and who="''admin''" and dets=None]
  have k1: "historyKept [sampleRecord] (fst (projr ?p))" using t2 p by blast
  have k2: "history (projr ?u) = history sampleRecord" using t u by blast
  have k3: "history (projr ?s)
       = history (sampleRecord\<lparr>verificationLevel := Official\<rparr>) @ [levelChangeEntry 9 Official]"
    using t s sample_saves(3) by simp
  have k4: "historyKept [sampleRecord]
        (verifyAndUpdateContract (\<lambda>a b. sampleInfo True True) 9 ''0xaaa'' None [sampleRecord])"
    using t by blast
  from k1 k2 k3 k4 p u s show ?thesis by simp
qed

end
